theory Spec2Isabelle
  imports Main "HOL-Library.Multiset"
begin

section \<open>Vote aggregation for locals mode: \<open>computeLocalsResults\<close> of \<open>server/index.js\<close>\<close>

text \<open>
  The embedding follows \<open>computeLocalsResults(places, participants)\<close> statement by
  statement. JavaScript numbers are modelled as \<open>nat\<close> (the tallies, which are array
  lengths) and \<open>int\<close> (the scores); all of them are small integers, far from the range
  where doubles lose precision. Objects used as dictionaries are association lists in
  enumeration order; the keys of an object are distinct, and a lookup in the model takes
  the first entry of a key. The keys of a ballot are whatever the request carried, so
  \<open>placeMap\<close>, which is read with them, is modelled with the members it inherits from
  \<open>Object.prototype\<close>. The ballots and the frequency tables are read with place ids and
  cuisine tags only: the ids are the provider's \<open>osm_\<close> strings and the tags are cuisine
  words, so a place id or a tag that names an inherited member (such as \<open>constructor\<close>)
  is outside the model, as are integer-like keys (which \<open>Object.entries\<close> enumerates
  first) and characters beyond ASCII in \<open>trim\<close> and \<open>toLowerCase\<close>.
\<close>

subsection \<open>Data\<close>

text \<open>
  A place as \<open>fetchLocalPlaces\<close> builds it. Only \<open>id\<close> and \<open>cuisine\<close> are read by the
  aggregation; \<open>name\<close> stands for the fields that are copied through untouched
  (\<open>address\<close>, \<open>website\<close>, \<open>tel\<close>, \<open>hours\<close>, \<open>amenity\<close>, \<open>lat\<close>, \<open>lon\<close>,
  \<open>maps_url\<close>). The field \<open>id\<close> is called
  \<open>place_id\<close> because \<open>id\<close> is the identity function of HOL, and \<open>name\<close> is called
  \<open>place_name\<close> because participants have a \<open>name\<close> too. \<open>cuisine\<close> is \<open>None\<close> for
  \<open>null\<close>.
\<close>

record place =
  place_id :: string
  place_name :: string
  cuisine :: "string option"

text \<open>
  A value stored under a key of a ballot. The client sends one of the five verdict
  strings, but the server stores whatever JSON the request carried. Of a number only
  whether it is zero matters, so integers suffice. \<open>JObj\<close> stands for any array or
  object: it is truthy and equal to no string.
\<close>

datatype jsval = JNull | JBool bool | JNum int | JStr string | JObj

fun truthy :: "jsval \<Rightarrow> bool" where
  "truthy JNull = False"
| "truthy (JBool b) = b"
| "truthy (JNum n) = (n \<noteq> 0)"
| "truthy (JStr s) = (s \<noteq> [])"
| "truthy JObj = True"

text \<open>
  What \<open>JSON.parse(p.answers || '{}')\<close> makes of the \<open>answers\<close> column of a participant
  row: the text is not JSON (\<open>JSON.parse\<close> throws a SyntaxError), it is the text
  \<open>null\<close> (the first property read on the result throws a TypeError), or it is an
  object, given by its entries in \<open>Object.entries\<close> order. An empty or NULL column is
  read as \<open>{}\<close>, that is \<open>JsonObject []\<close>. The submit route stores
  \<open>JSON.stringify(answers)\<close> of the request body, so the text \<open>null\<close> can be
  stored; a column holding a JSON number, string or array is outside the model.
\<close>

datatype answers_text = NotJson | JsonNull | JsonObject "(string \<times> jsval) list"

record 'a participant =
  name :: string
  answers :: 'a

type_synonym parsedParticipant = "((string \<times> jsval) list) participant"

datatype js_error = SyntaxError | TypeError

text \<open>The elements of \<open>placeScores\<close> after \<open>places.map\<close> (lines 422 to 452).\<close>

record placeScore = place +
  loveCount :: nat
  likeCount :: nat
  mehCount :: nat
  unknownCount :: nat
  nopeCount :: nat
  allLove :: bool
  allPositive :: bool
  noneNope :: bool
  score :: int
  voteBreakdown :: string

text \<open>The same elements once the boosting loop (lines 466 to 475) has set \<open>boostedScore\<close>.\<close>

record boostedPlace = placeScore +
  boostedScore :: int

text \<open>
  What \<open>placeMap[id]\<close> yields when it is not \<open>undefined\<close>: a place of the candidate list
  or, since \<open>placeMap\<close> starts as \<open>{}\<close>, the member of \<open>Object.prototype\<close> that the key
  names (a function, or the prototype itself for \<open>__proto__\<close>). All of them are truthy.
\<close>

datatype mapped = Candidate place | Inherited string

text \<open>
  An element of \<open>individual_profiles\<close>; its field \<open>name\<close> is called \<open>profile_name\<close>. Its
  three lists hold what \<open>placeMap\<close> yields for the keys of the ballot.
\<close>

record profile =
  profile_name :: string
  lovedPlaces :: "mapped list"
  likedPlaces :: "mapped list"
  wantToTryPlaces :: "mapped list"
  topCuisines :: "string list"
  totalLoved :: nat
  totalLiked :: nat
  totalTry :: nat

record results =
  mode :: string
  group_summary :: string
  shared_favorites :: "boostedPlace list"
  places_to_try :: "boostedPlace list"
  best_bets :: "boostedPlace list"
  fallback_picks :: "boostedPlace list"
  individual_profiles :: "profile list"
  cuisine_overlap :: "string list"
  needs_ai_fallback :: bool

subsection \<open>Strings\<close>

text \<open>\<open>String(n)\<close> for a non-negative integer, as the template literals print counts.\<close>

fun show_nat :: "nat \<Rightarrow> string" where
  "show_nat n =
     (if n < 10 then [char_of (48 + n)]
      else show_nat (n div 10) @ [char_of (48 + n mod 10)])"

declare show_nat.simps [simp del]

text \<open>\<open>Array.prototype.join\<close>.\<close>

fun join :: "string \<Rightarrow> string list \<Rightarrow> string" where
  "join sep [] = []"
| "join sep [x] = x"
| "join sep (x # y # ys) = x @ sep @ join sep (y # ys)"

text \<open>\<open>String.prototype.split\<close> with a separator of one character.\<close>

fun split :: "char \<Rightarrow> string \<Rightarrow> string list" where
  "split sep [] = [[]]"
| "split sep (c # cs) =
     (if c = sep then [] # split sep cs
      else (case split sep cs of [] \<Rightarrow> [[c]] | w # ws \<Rightarrow> (c # w) # ws))"

text \<open>\<open>trim\<close> and \<open>toLowerCase\<close>, on ASCII.\<close>

definition is_space :: "char \<Rightarrow> bool" where
  "is_space c = (c \<in> set [CHR '' '', CHR 0x09, CHR 0x0A, CHR 0x0B, CHR 0x0C, CHR 0x0D])"

definition trim :: "string \<Rightarrow> string" where
  "trim s = rev (dropWhile is_space (rev (dropWhile is_space s)))"

definition lower_char :: "char \<Rightarrow> char" where
  "lower_char c =
     (let n = (of_char c :: nat)
      in if 65 \<le> n \<and> n \<le> 90 then char_of (n + 32) else c)"

definition toLowerCase :: "string \<Rightarrow> string" where
  "toLowerCase s = map lower_char s"

text \<open>
  \<open>place.cuisine.split(';').map(c => c.trim().toLowerCase())\<close>: the tags of a place
  whose \<open>cuisine\<close> is truthy. A place whose \<open>cuisine\<close> is \<open>null\<close> or the empty string has
  no tags.
\<close>

definition has_cuisine :: "'a place_scheme \<Rightarrow> bool" where
  "has_cuisine p = (case cuisine p of None \<Rightarrow> False | Some s \<Rightarrow> s \<noteq> [])"

definition tags :: "'a place_scheme \<Rightarrow> string list" where
  "tags p = (case cuisine p of None \<Rightarrow> []
             | Some s \<Rightarrow> if s = [] then [] else map (\<lambda>c. toLowerCase (trim c)) (split CHR '';'' s))"

subsection \<open>Sorting with a comparator\<close>

text \<open>
  \<open>Array.prototype.sort(cmp)\<close> is stable. For a comparator that is consistent (all the
  comparators below compare integer keys) the result of a stable sort is unique, so a
  stable insertion sort computes it: each element is put before the first element of the
  sorted rest that it does not come after.
\<close>

fun insert_by :: "('a \<Rightarrow> 'a \<Rightarrow> int) \<Rightarrow> 'a \<Rightarrow> 'a list \<Rightarrow> 'a list" where
  "insert_by cmp x [] = [x]"
| "insert_by cmp x (y # ys) = (if cmp x y \<le> 0 then x # y # ys else y # insert_by cmp x ys)"

definition sort_by :: "('a \<Rightarrow> 'a \<Rightarrow> int) \<Rightarrow> 'a list \<Rightarrow> 'a list" where
  "sort_by cmp xs = foldr (insert_by cmp) xs []"

text \<open>\<open>(a, b) => b.boostedScore - a.boostedScore\<close>\<close>

definition byBoostedDesc :: "boostedPlace \<Rightarrow> boostedPlace \<Rightarrow> int" where
  "byBoostedDesc a b = boostedScore b - boostedScore a"

text \<open>
  \<open>(a, b) => a.nopeCount - b.nopeCount || b.loveCount - a.loveCount || b.likeCount - a.likeCount\<close>:
  \<open>||\<close> yields its left operand unless that is zero.
\<close>

definition leastHated :: "boostedPlace \<Rightarrow> boostedPlace \<Rightarrow> int" where
  "leastHated a b =
     (let d1 = int (nopeCount a) - int (nopeCount b);
          d2 = int (loveCount b) - int (loveCount a);
          d3 = int (likeCount b) - int (likeCount a)
      in if d1 \<noteq> 0 then d1 else if d2 \<noteq> 0 then d2 else d3)"

text \<open>\<open>([, a], [, b]) => b - a\<close> on the entries of a frequency table.\<close>

definition byCountDesc :: "string \<times> int \<Rightarrow> string \<times> int \<Rightarrow> int" where
  "byCountDesc a b = snd b - snd a"

subsection \<open>Scoring (lines 420 to 452)\<close>

text \<open>\<open>p.answers[place.id] || 'unknown'\<close>\<close>

definition vote :: "parsedParticipant \<Rightarrow> string \<Rightarrow> jsval" where
  "vote p i = (case map_of (answers p) i of
                 None \<Rightarrow> JStr ''unknown''
               | Some v \<Rightarrow> if truthy v then v else JStr ''unknown'')"

definition votes :: "parsedParticipant list \<Rightarrow> string \<Rightarrow> jsval list" where
  "votes parsedParticipants i = map (\<lambda>p. vote p i) parsedParticipants"

definition tally :: "string \<Rightarrow> jsval list \<Rightarrow> nat" where
  "tally w vs = length (filter (\<lambda>v. v = JStr w) vs)"

definition breakdown :: "nat \<Rightarrow> nat \<Rightarrow> nat \<Rightarrow> nat \<Rightarrow> nat \<Rightarrow> string" where
  "breakdown lo li me un no =
     join '', '' (filter (\<lambda>s. s \<noteq> [])
       [if lo > 0 then show_nat lo @ '' love'' else [],
        if li > 0 then show_nat li @ '' like'' else [],
        if me > 0 then show_nat me @ '' meh'' else [],
        if un > 0 then show_nat un @ '' haven't tried'' else [],
        if no > 0 then show_nat no @ '' nope'' else []])"

definition scorePlace :: "parsedParticipant list \<Rightarrow> place \<Rightarrow> placeScore" where
  "scorePlace parsedParticipants p =
     (let vs = votes parsedParticipants (place_id p);
          lo = tally ''love'' vs;
          li = tally ''like'' vs;
          me = tally ''meh'' vs;
          un = tally ''unknown'' vs;
          no = tally ''nope'' vs;
          positiveCount = lo + li
      in \<lparr> place_id = place_id p, place_name = place_name p, cuisine = cuisine p,
           loveCount = lo, likeCount = li, mehCount = me, unknownCount = un, nopeCount = no,
           allLove = (lo = length parsedParticipants),
           allPositive = (positiveCount = length parsedParticipants),
           noneNope = (no = 0),
           score = int lo * 4 + int li * 2 + int me * 0 + int un * 0 - int no * 3,
           voteBreakdown = breakdown lo li me un no \<rparr>)"

subsection \<open>Cuisine frequency and boosting (lines 454 to 475)\<close>

text \<open>
  \<open>table[c] = (table[c] || 0) + n\<close> on an object used as a dictionary: an existing key
  keeps its place in the enumeration order, a new key goes last.
\<close>

definition lookup0 :: "(string \<times> int) list \<Rightarrow> string \<Rightarrow> int" where
  "lookup0 table c = (case map_of table c of None \<Rightarrow> 0 | Some v \<Rightarrow> v)"

definition bump :: "int \<Rightarrow> string \<Rightarrow> (string \<times> int) list \<Rightarrow> (string \<times> int) list" where
  "bump n c table =
     (if c \<in> fst ` set table
      then map (\<lambda>(k, v). if k = c then (k, lookup0 table c + n) else (k, v)) table
      else table @ [(c, 0 + n)])"

definition positiveSignal :: "'a placeScore_scheme \<Rightarrow> nat" where
  "positiveSignal p = loveCount p + likeCount p"

definition cuisineFrequency :: "placeScore list \<Rightarrow> (string \<times> int) list" where
  "cuisineFrequency scored =
     fold (\<lambda>p table.
             if positiveSignal p > 0 \<and> has_cuisine p
             then fold (bump (int (positiveSignal p))) (tags p) table
             else table)
          scored []"

definition bonus :: "(string \<times> int) list \<Rightarrow> 'a place_scheme \<Rightarrow> int" where
  "bonus table p = fold (\<lambda>c sum. sum + lookup0 table c) (tags p) 0"

definition boost :: "(string \<times> int) list \<Rightarrow> placeScore \<Rightarrow> boostedPlace" where
  "boost table p =
     placeScore.extend p
       (boostedPlace.fields (if has_cuisine p then score p + bonus table p else score p))"

definition scored :: "place list \<Rightarrow> parsedParticipant list \<Rightarrow> placeScore list" where
  "scored places parsedParticipants = map (scorePlace parsedParticipants) places"

definition placeScores :: "place list \<Rightarrow> parsedParticipant list \<Rightarrow> boostedPlace list" where
  "placeScores places parsedParticipants =
     (let sc = scored places parsedParticipants
      in map (boost (cuisineFrequency sc)) sc)"

subsection \<open>Tiers (lines 477 to 503)\<close>

definition sharedFavorites :: "boostedPlace list \<Rightarrow> boostedPlace list" where
  "sharedFavorites ps =
     sort_by byBoostedDesc (filter (\<lambda>p. allPositive p \<and> loveCount p > 0) ps)"

definition placesToTry :: "boostedPlace list \<Rightarrow> boostedPlace list" where
  "placesToTry ps =
     sort_by byBoostedDesc (filter (\<lambda>p. noneNope p \<and> \<not> allPositive p) ps)"

definition usedIds :: "boostedPlace list \<Rightarrow> string set" where
  "usedIds ps = set (map place_id (sharedFavorites ps) @ map place_id (placesToTry ps))"

definition bestBets :: "boostedPlace list \<Rightarrow> boostedPlace list" where
  "bestBets ps =
     take 5 (sort_by byBoostedDesc (filter (\<lambda>p. place_id p \<notin> usedIds ps \<and> score p > 0) ps))"

text \<open>
  \<open>placeScores.sort(...)\<close> sorts the array in place, but nothing reads \<open>placeScores\<close>
  afterwards, so the model sorts a copy.
\<close>

definition fallbackPicks :: "boostedPlace list \<Rightarrow> boostedPlace list" where
  "fallbackPicks ps =
     (if length (sharedFavorites ps) = 0 \<and> length (placesToTry ps) = 0 \<and> length (bestBets ps) = 0
      then take 3 (sort_by leastHated ps)
      else [])"

subsection \<open>Individual profiles (lines 505 to 544)\<close>

text \<open>The names of the members that every object inherits from \<open>Object.prototype\<close>.\<close>

definition objectPrototype :: "string list" where
  "objectPrototype =
     [''constructor'', ''__defineGetter__'', ''__defineSetter__'', ''hasOwnProperty'',
      ''__lookupGetter__'', ''__lookupSetter__'', ''isPrototypeOf'', ''propertyIsEnumerable'',
      ''toString'', ''valueOf'', ''__proto__'', ''toLocaleString'']"

text \<open>\<open>const placeMap = {}\<close>, read by key: it has no key of its own and the inherited ones.\<close>

definition emptyObject :: "string \<rightharpoonup> mapped" where
  "emptyObject k = (if k \<in> set objectPrototype then Some (Inherited k) else None)"

text \<open>
  \<open>placeMap[place.id] = place\<close> for each place in turn: a later place with the same id
  wins, and a key of its own hides an inherited one.
\<close>

definition placeMap :: "place list \<Rightarrow> string \<rightharpoonup> mapped" where
  "placeMap places = fold (\<lambda>p m. m(place_id p \<mapsto> Candidate p)) places emptyObject"

text \<open>
  \<open>Object.entries(p.answers).filter(([_, v]) => v === w).map(([id]) => placeMap[id]).filter(Boolean)\<close>
\<close>

definition picked :: "string \<Rightarrow> (string \<rightharpoonup> mapped) \<Rightarrow> (string \<times> jsval) list \<Rightarrow> mapped list" where
  "picked w m entries = List.map_filter (\<lambda>(i, v). m i) (filter (\<lambda>(i, v). v = JStr w) entries)"

text \<open>
  The loop over \<open>[...loved, ...liked]\<close> (lines 520 to 527); \<open>place.cuisine\<close> of an inherited
  member is \<open>undefined\<close>.
\<close>

definition cuisineCounts :: "mapped list \<Rightarrow> (string \<times> int) list" where
  "cuisineCounts ps =
     fold (\<lambda>q table. case q of
               Candidate p \<Rightarrow> if has_cuisine p then fold (bump 1) (tags p) table else table
             | Inherited k \<Rightarrow> table)
          ps []"

definition individualProfile :: "(string \<rightharpoonup> mapped) \<Rightarrow> parsedParticipant \<Rightarrow> profile" where
  "individualProfile m p =
     (let loved = picked ''love'' m (answers p);
          liked = picked ''like'' m (answers p);
          wantToTry = picked ''unknown'' m (answers p)
      in \<lparr> profile_name = name p,
           lovedPlaces = loved,
           likedPlaces = liked,
           wantToTryPlaces = wantToTry,
           topCuisines = map fst (take 5 (sort_by byCountDesc (cuisineCounts (loved @ liked)))),
           totalLoved = length loved,
           totalLiked = length liked,
           totalTry = length wantToTry \<rparr>)"

definition individualProfiles :: "place list \<Rightarrow> parsedParticipant list \<Rightarrow> profile list" where
  "individualProfiles places parsedParticipants =
     map (individualProfile (placeMap places)) parsedParticipants"

subsection \<open>Summary and fallback flag (lines 546 to 569)\<close>

definition topGroupCuisines :: "(string \<times> int) list \<Rightarrow> string list" where
  "topGroupCuisines table = map fst (take 3 (sort_by byCountDesc table))"

definition groupSummary ::
  "boostedPlace list \<Rightarrow> boostedPlace list \<Rightarrow> boostedPlace list \<Rightarrow> boostedPlace list \<Rightarrow>
   string list \<Rightarrow> string" where
  "groupSummary sf pt bb fp overlap =
     (if length sf > 0 then
        ''your group has '' @ show_nat (length sf) @ '' shared favorite''
        @ (if length sf > 1 then ''s'' else [])
        @ (if length overlap > 0 then '' and gravitates toward '' @ join '', '' overlap else [])
        @ ''. '' @ show_nat (length pt) @ '' more place''
        @ (if length pt \<noteq> 1 then ''s'' else []) @ '' to explore together.''
      else if length pt > 0 then
        ''no unanimous favorites, but '' @ show_nat (length pt) @ '' place''
        @ (if length pt \<noteq> 1 then ''s'' else []) @ '' interest everyone.''
        @ (if length overlap > 0 then '' the group leans toward '' @ join '', '' overlap @ ''.'' else [])
      else if length bb > 0 then
        ''different tastes, but we found some best bets based on what the group liked most.''
        @ (if length overlap > 0 then '' popular cuisines: '' @ join '', '' overlap @ ''.'' else [])
      else if length fp > 0 then
        ''wildly different taste - here are the least controversial picks.''
        @ (if length overlap > 0 then '' the group leans toward '' @ join '', '' overlap @ ''.'' else [])
      else
        ''no overlap found. try expanding your search radius or picking a different category.'')"

definition needsAiFallback ::
  "boostedPlace list \<Rightarrow> boostedPlace list \<Rightarrow> boostedPlace list \<Rightarrow> boostedPlace list \<Rightarrow> bool" where
  "needsAiFallback sf pt bb fp =
     (length sf = 0 \<and> length pt = 0 \<and> length bb = 0 \<and>
      list_all (\<lambda>p. nopeCount p > loveCount p + likeCount p) fp)"

subsection \<open>The whole function\<close>

text \<open>
  The body of \<open>computeLocalsResults\<close> from line 415 on, for ballots that parsed to
  objects; the specification calls it \<open>aggregate\<close>.
\<close>

definition aggregate :: "place list \<Rightarrow> parsedParticipant list \<Rightarrow> results" where
  "aggregate places parsedParticipants =
     (let sc = scored places parsedParticipants;
          table = cuisineFrequency sc;
          ps = map (boost table) sc;
          sf = sharedFavorites ps;
          pt = placesToTry ps;
          bb = bestBets ps;
          fp = fallbackPicks ps;
          overlap = topGroupCuisines table
      in \<lparr> mode = ''locals'',
           group_summary = groupSummary sf pt bb fp overlap,
           shared_favorites = take 10 sf,
           places_to_try = take 10 pt,
           best_bets = bb,
           fallback_picks = fp,
           individual_profiles = individualProfiles places parsedParticipants,
           cuisine_overlap = overlap,
           needs_ai_fallback = needsAiFallback sf pt bb fp \<rparr>)"

text \<open>
  Lines 410 to 413 parse every ballot first, so one that is not JSON raises before any
  other work. A ballot that parsed to \<open>null\<close> raises a TypeError later, at
  \<open>p.answers[place.id]\<close> or at the latest at \<open>Object.entries(p.answers)\<close>, whatever the
  places are.
\<close>

definition parsed :: "answers_text participant \<Rightarrow> parsedParticipant" where
  "parsed p = \<lparr> name = name p,
               answers = (case answers p of JsonObject entries \<Rightarrow> entries | _ \<Rightarrow> []) \<rparr>"

definition computeLocalsResults ::
  "place list \<Rightarrow> answers_text participant list \<Rightarrow> js_error + results" where
  "computeLocalsResults places participants =
     (if list_ex (\<lambda>p. answers p = NotJson) participants then Inl SyntaxError
      else if list_ex (\<lambda>p. answers p = JsonNull) participants then Inl TypeError
      else Inr (aggregate places (map parsed participants)))"

text \<open>The verdicts the code knows (line 421): \<open>5 vote types: love, like, meh, unknown, nope\<close>.\<close>

definition voteTypes :: "string list" where
  "voteTypes = [''love'', ''like'', ''meh'', ''unknown'', ''nope'']"

section \<open>Lemmas about the model\<close>

subsection \<open>The boosting loop changes no field but \<open>boostedScore\<close>\<close>

lemma boost_fields:
  "place_id (boost t p) = place_id p" "cuisine (boost t p) = cuisine p"
  "loveCount (boost t p) = loveCount p" "likeCount (boost t p) = likeCount p"
  "mehCount (boost t p) = mehCount p" "unknownCount (boost t p) = unknownCount p"
  "nopeCount (boost t p) = nopeCount p" "allLove (boost t p) = allLove p"
  "allPositive (boost t p) = allPositive p" "noneNope (boost t p) = noneNope p"
  "score (boost t p) = score p" "voteBreakdown (boost t p) = voteBreakdown p"
  "boostedScore (boost t p) = (if has_cuisine p then score p + bonus t p else score p)"
  by (simp_all add: boost_def placeScore.defs boostedPlace.defs)

lemma tags_boost: "tags (boost t p) = tags p" "has_cuisine (boost t p) = has_cuisine p"
  by (simp_all add: tags_def has_cuisine_def boost_fields)

lemma scorePlace_fields:
  "place_id (scorePlace pp p) = place_id p"
  "cuisine (scorePlace pp p) = cuisine p"
  "loveCount (scorePlace pp p) = tally ''love'' (votes pp (place_id p))"
  "likeCount (scorePlace pp p) = tally ''like'' (votes pp (place_id p))"
  "mehCount (scorePlace pp p) = tally ''meh'' (votes pp (place_id p))"
  "unknownCount (scorePlace pp p) = tally ''unknown'' (votes pp (place_id p))"
  "nopeCount (scorePlace pp p) = tally ''nope'' (votes pp (place_id p))"
  by (simp_all add: scorePlace_def Let_def)

lemma scorePlace_derived:
  "allLove (scorePlace pp p) = (loveCount (scorePlace pp p) = length pp)"
  "allPositive (scorePlace pp p) =
     (loveCount (scorePlace pp p) + likeCount (scorePlace pp p) = length pp)"
  "noneNope (scorePlace pp p) = (nopeCount (scorePlace pp p) = 0)"
  "score (scorePlace pp p) =
     4 * int (loveCount (scorePlace pp p)) + 2 * int (likeCount (scorePlace pp p))
     - 3 * int (nopeCount (scorePlace pp p))"
  by (simp_all add: scorePlace_def Let_def)

lemma tags_scorePlace:
  "tags (scorePlace pp p) = tags p" "has_cuisine (scorePlace pp p) = has_cuisine p"
  by (simp_all add: tags_def has_cuisine_def scorePlace_fields)

lemma length_placeScores: "length (placeScores places pp) = length places"
  by (simp add: placeScores_def scored_def Let_def)

lemma placeScores_nth:
  "n < length places \<Longrightarrow>
   placeScores places pp ! n =
     boost (cuisineFrequency (scored places pp)) (scorePlace pp (places ! n))"
  by (simp add: placeScores_def scored_def Let_def)

subsection \<open>The stable insertion sort\<close>

lemma sort_by_Nil: "sort_by cmp [] = []"
  by (simp add: sort_by_def)

lemma sort_by_Cons: "sort_by cmp (x # xs) = insert_by cmp x (sort_by cmp xs)"
  by (simp add: sort_by_def)

lemma mset_insert_by: "mset (insert_by cmp x xs) = add_mset x (mset xs)"
  by (induction xs) auto

lemma mset_sort_by: "mset (sort_by cmp xs) = mset xs"
  by (induction xs) (auto simp: sort_by_def mset_insert_by)

lemma set_sort_by: "set (sort_by cmp xs) = set xs"
  by (metis mset_sort_by set_mset_mset)

lemma length_sort_by: "length (sort_by cmp xs) = length xs"
  by (metis mset_sort_by size_mset)

lemma sorted_insert_by:
  assumes tot: "\<And>x y. cmp x y \<le> 0 \<or> cmp y x \<le> 0"
    and trans: "\<And>x y z. cmp x y \<le> 0 \<Longrightarrow> cmp y z \<le> 0 \<Longrightarrow> cmp x z \<le> 0"
    and "sorted_wrt (\<lambda>a b. cmp a b \<le> 0) xs"
  shows "sorted_wrt (\<lambda>a b. cmp a b \<le> 0) (insert_by cmp x xs)"
  using assms(3)
proof (induction xs)
  case Nil
  then show ?case by simp
next
  case (Cons y ys)
  show ?case
  proof (cases "cmp x y \<le> 0")
    case True
    then have "\<forall>z\<in>set ys. cmp x z \<le> 0" using Cons.prems trans by auto
    with True Cons.prems show ?thesis by simp
  next
    case False
    then have yx: "cmp y x \<le> 0" using tot by blast
    have "set (insert_by cmp x ys) = insert x (set ys)"
      by (metis mset_insert_by set_mset_add_mset_insert set_mset_mset)
    with False yx Cons show ?thesis by auto
  qed
qed

lemma sorted_sort_by:
  assumes tot: "\<And>x y. cmp x y \<le> 0 \<or> cmp y x \<le> 0"
    and trans: "\<And>x y z. cmp x y \<le> 0 \<Longrightarrow> cmp y z \<le> 0 \<Longrightarrow> cmp x z \<le> 0"
  shows "sorted_wrt (\<lambda>a b. cmp a b \<le> 0) (sort_by cmp xs)"
proof (induction xs)
  case Nil
  then show ?case by (simp add: sort_by_Nil)
next
  case (Cons x xs)
  then show ?case
    using sorted_insert_by [OF tot trans] by (simp add: sort_by_Cons)
qed

text \<open>A list whose elements all compare as equal is left as it is: the sort is stable.\<close>

lemma sort_by_id:
  "(\<And>x y. x \<in> set xs \<Longrightarrow> y \<in> set xs \<Longrightarrow> cmp x y \<le> 0) \<Longrightarrow> sort_by cmp xs = xs"
proof (induction xs)
  case Nil
  then show ?case by (simp add: sort_by_Nil)
next
  case (Cons x xs)
  then have "sort_by cmp xs = xs" by simp
  then show ?case using Cons.prems by (cases xs) (simp_all add: sort_by_Cons)
qed

lemma sorted_byBoostedDesc:
  "sorted_wrt (\<lambda>a b. boostedScore a \<ge> boostedScore b) (sort_by byBoostedDesc xs)"
proof -
  have "sorted_wrt (\<lambda>a b. byBoostedDesc a b \<le> 0) (sort_by byBoostedDesc xs)"
    by (rule sorted_sort_by) (auto simp: byBoostedDesc_def)
  then show ?thesis by (simp add: byBoostedDesc_def)
qed

lemma leastHated_le:
  "leastHated a b \<le> 0 \<longleftrightarrow>
     (nopeCount a < nopeCount b \<or>
      nopeCount a = nopeCount b \<and> (loveCount a > loveCount b \<or>
      loveCount a = loveCount b \<and> likeCount a \<ge> likeCount b))"
  by (auto simp: leastHated_def Let_def)

lemma sorted_leastHated:
  "sorted_wrt (\<lambda>a b. leastHated a b \<le> 0) (sort_by leastHated xs)"
  by (rule sorted_sort_by) (auto simp: leastHated_le)

subsection \<open>Tallies and ballots\<close>

lemma tally_sum:
  "tally ''love'' vs + tally ''like'' vs + tally ''meh'' vs + tally ''unknown'' vs + tally ''nope'' vs
     = length (filter (\<lambda>v. v \<in> JStr ` set voteTypes) vs)"
  by (induction vs) (auto simp: tally_def voteTypes_def)

text \<open>Ballots that parsed to objects never make the function raise.\<close>

lemma computeLocalsResults_objects:
  "computeLocalsResults places (map (\<lambda>p. \<lparr>name = name p, answers = JsonObject (answers p)\<rparr>) pp)
     = Inr (aggregate places pp)"
proof -
  have "map parsed (map (\<lambda>p. \<lparr>name = name p, answers = JsonObject (answers p)\<rparr>) pp) = pp"
    by (induction pp) (simp_all add: parsed_def)
  moreover have
    "\<not> list_ex (\<lambda>p. answers p = NotJson)
         (map (\<lambda>p. \<lparr>name = name p, answers = JsonObject (answers p)\<rparr>) pp)"
    "\<not> list_ex (\<lambda>p. answers p = JsonNull)
         (map (\<lambda>p. \<lparr>name = name p, answers = JsonObject (answers p)\<rparr>) pp)"
    by (simp_all add: list_ex_iff)
  ultimately show ?thesis by (simp add: computeLocalsResults_def)
qed

text \<open>A ballot that is not JSON, or is \<open>null\<close>, makes it raise, whatever the places are.\<close>

lemma computeLocalsResults_raises:
  "computeLocalsResults places (xs @ \<lparr>name = n, answers = NotJson\<rparr> # ys) = Inl SyntaxError"
  "list_all (\<lambda>p. answers p \<noteq> NotJson) (xs @ ys) \<Longrightarrow>
     computeLocalsResults places (xs @ \<lparr>name = n, answers = JsonNull\<rparr> # ys) = Inl TypeError"
  by (auto simp: computeLocalsResults_def list_ex_iff list_all_iff)

subsection \<open>The fields of the result\<close>

lemma aggregate_placeScores:
  "map (boost (cuisineFrequency (scored places pp))) (scored places pp) = placeScores places pp"
  by (simp add: placeScores_def Let_def)

lemma aggregate_fields:
  "mode (aggregate places pp) = ''locals''"
  "shared_favorites (aggregate places pp) = take 10 (sharedFavorites (placeScores places pp))"
  "places_to_try (aggregate places pp) = take 10 (placesToTry (placeScores places pp))"
  "best_bets (aggregate places pp) = bestBets (placeScores places pp)"
  "fallback_picks (aggregate places pp) = fallbackPicks (placeScores places pp)"
  "individual_profiles (aggregate places pp) = individualProfiles places pp"
  "cuisine_overlap (aggregate places pp) = topGroupCuisines (cuisineFrequency (scored places pp))"
  "needs_ai_fallback (aggregate places pp) =
     needsAiFallback (sharedFavorites (placeScores places pp)) (placesToTry (placeScores places pp))
       (bestBets (placeScores places pp)) (fallbackPicks (placeScores places pp))"
  "group_summary (aggregate places pp) =
     groupSummary (sharedFavorites (placeScores places pp)) (placesToTry (placeScores places pp))
       (bestBets (placeScores places pp)) (fallbackPicks (placeScores places pp))
       (topGroupCuisines (cuisineFrequency (scored places pp)))"
  by (simp_all add: aggregate_def Let_def aggregate_placeScores)

lemma take10_Nil: "take 10 xs = [] \<longleftrightarrow> xs = []"
  by (cases xs) simp_all

subsection \<open>No participants, no places\<close>

lemma scored_no_participants:
  "s \<in> set (scored places []) \<Longrightarrow> loveCount s = 0 \<and> likeCount s = 0 \<and> nopeCount s = 0 \<and> score s = 0 \<and> allPositive s"
  by (auto simp: scored_def scorePlace_def Let_def votes_def tally_def)

lemma cuisineFrequency_none:
  "(\<And>s. s \<in> set sc \<Longrightarrow> positiveSignal s = 0) \<Longrightarrow> cuisineFrequency sc = []"
proof -
  have "(\<And>s. s \<in> set sc \<Longrightarrow> positiveSignal s = 0) \<Longrightarrow>
        fold (\<lambda>p table. if positiveSignal p > 0 \<and> has_cuisine p
             then fold (bump (int (positiveSignal p))) (tags p) table else table) sc t = t" for t
    by (induction sc arbitrary: t) simp_all
  then show "(\<And>s. s \<in> set sc \<Longrightarrow> positiveSignal s = 0) \<Longrightarrow> cuisineFrequency sc = []"
    by (simp add: cuisineFrequency_def)
qed

lemma placeScores_no_participants:
  assumes "s \<in> set (placeScores places [])"
  shows "loveCount s = 0" "likeCount s = 0" "nopeCount s = 0" "score s = 0" "allPositive s"
  using assms scored_no_participants [of _ places]
  by (auto simp: placeScores_def Let_def boost_fields)

lemma tiers_no_participants:
  "sharedFavorites (placeScores places []) = []"
  "placesToTry (placeScores places []) = []"
  "bestBets (placeScores places []) = []"
proof -
  let ?ps = "placeScores places []"
  have 1: "filter (\<lambda>p. allPositive p \<and> loveCount p > 0) ?ps = []"
    using placeScores_no_participants(1) [of _ places] by (auto simp: filter_empty_conv)
  have 2: "filter (\<lambda>p. noneNope p \<and> \<not> allPositive p) ?ps = []"
    using placeScores_no_participants(5) [of _ places] by (auto simp: filter_empty_conv)
  have 3: "filter (\<lambda>p. place_id p \<notin> usedIds ?ps \<and> score p > 0) ?ps = []"
    using placeScores_no_participants(4) [of _ places] by (auto simp: filter_empty_conv)
  show "sharedFavorites ?ps = []" by (simp add: sharedFavorites_def 1 sort_by_Nil)
  show "placesToTry ?ps = []" by (simp add: placesToTry_def 2 sort_by_Nil)
  show "bestBets ?ps = []" by (simp add: bestBets_def 3 sort_by_Nil)
qed

lemma fallback_no_participants:
  "fallbackPicks (placeScores places []) = take 3 (placeScores places [])"
proof -
  have "sort_by leastHated (placeScores places []) = placeScores places []"
    by (rule sort_by_id) (simp add: leastHated_le placeScores_no_participants)
  then show ?thesis by (simp add: fallbackPicks_def tiers_no_participants)
qed

lemma placeScores_Nil: "placeScores [] pp = []"
  by (simp add: placeScores_def scored_def)

lemma tiers_no_places:
  "sharedFavorites [] = []" "placesToTry [] = []" "bestBets [] = []" "fallbackPicks [] = []"
  by (simp_all add: sharedFavorites_def placesToTry_def bestBets_def fallbackPicks_def sort_by_Nil)

lemma map_place_id_placeScores: "map place_id (placeScores places pp) = map place_id places"
  by (simp add: placeScores_def scored_def Let_def boost_fields scorePlace_fields)

subsection \<open>A missing entry and an explicit \<open>unknown\<close>\<close>

lemma vote_insert_unknown:
  assumes "i \<notin> fst ` set (es1 @ es2)"
  shows "vote \<lparr>name = n, answers = es1 @ (i, JStr ''unknown'') # es2\<rparr> k
       = vote \<lparr>name = n, answers = es1 @ es2\<rparr> k"
proof -
  have "map_of es1 i = None" "map_of es2 i = None"
    using assms by (auto simp: map_of_eq_None_iff)
  then show ?thesis
    by (cases "map_of es1 k") (auto simp: vote_def map_add_def split: option.splits)
qed

lemma scored_cong:
  "(\<And>k. votes pp' k = votes pp k) \<Longrightarrow> length pp' = length pp \<Longrightarrow> scored places pp' = scored places pp"
  by (simp add: scored_def scorePlace_def)

lemma picked_append: "picked w m (es1 @ es2) = picked w m es1 @ picked w m es2"
  by (induction es1) (auto simp: picked_def List.map_filter_def)

lemma picked_Cons:
  "picked w m ((i, v) # es) =
     (if v = JStr w then (case m i of None \<Rightarrow> [] | Some q \<Rightarrow> [q]) else []) @ picked w m es"
  by (auto simp: picked_def List.map_filter_def split: option.splits)

lemma placeMap_fold_other:
  "k \<notin> place_id ` set places \<Longrightarrow>
     fold (\<lambda>p m. m(place_id p \<mapsto> Candidate p)) places m0 k = m0 k"
  by (induction places arbitrary: m0) simp_all

lemma placeMap_fold_candidate:
  "k \<in> place_id ` set places \<Longrightarrow>
     \<exists>q \<in> set places. place_id q = k
        \<and> fold (\<lambda>p m. m(place_id p \<mapsto> Candidate p)) places m0 k = Some (Candidate q)"
proof (induction places arbitrary: m0)
  case Nil
  then show ?case by simp
next
  case (Cons a places)
  let ?f = "\<lambda>p m. m(place_id p \<mapsto> Candidate p)"
  have step: "fold ?f (a # places) m0 = fold ?f places (m0(place_id a \<mapsto> Candidate a))"
    by (simp only: fold_simps o_apply)
  show ?case
  proof (cases "k \<in> place_id ` set places")
    case True
    from Cons.IH [OF this, of "m0(place_id a \<mapsto> Candidate a)"]
    obtain q where q: "q \<in> set places" "place_id q = k"
      "fold ?f places (m0(place_id a \<mapsto> Candidate a)) k = Some (Candidate q)"
      by blast
    show ?thesis
    proof (intro bexI conjI)
      show "place_id q = k" by (fact q(2))
      show "fold ?f (a # places) m0 k = Some (Candidate q)" unfolding step by (fact q(3))
      show "q \<in> set (a # places)" using q(1) by simp
    qed
  next
    case False
    then have ak: "place_id a = k" using Cons.prems by auto
    have "fold ?f places (m0(place_id a \<mapsto> Candidate a)) k = (m0(place_id a \<mapsto> Candidate a)) k"
      by (rule placeMap_fold_other [OF False])
    also have "\<dots> = Some (Candidate a)" unfolding ak by (rule fun_upd_same)
    finally have r: "fold ?f (a # places) m0 k = Some (Candidate a)" unfolding step .
    show ?thesis
    proof (intro bexI conjI)
      show "place_id a = k" by (fact ak)
      show "fold ?f (a # places) m0 k = Some (Candidate a)" by (fact r)
      show "a \<in> set (a # places)" by simp
    qed
  qed
qed

lemma placeMap_candidate:
  "k \<in> place_id ` set places \<Longrightarrow>
     \<exists>q \<in> set places. place_id q = k \<and> placeMap places k = Some (Candidate q)"
  unfolding placeMap_def by (rule placeMap_fold_candidate)

lemma placeMap_other:
  "k \<notin> place_id ` set places \<Longrightarrow>
     placeMap places k = (if k \<in> set objectPrototype then Some (Inherited k) else None)"
  by (simp add: placeMap_def placeMap_fold_other emptyObject_def)

lemma placeMap_None:
  "(placeMap places k = None) = (k \<notin> place_id ` set places \<union> set objectPrototype)"
proof (cases "k \<in> place_id ` set places")
  case True
  then show ?thesis using placeMap_candidate [OF True] by auto
next
  case False
  then show ?thesis by (simp add: placeMap_other)
qed

lemma votes_insert_unknown:
  assumes "i \<notin> fst ` set (es1 @ es2)"
  shows "votes (xs @ \<lparr>name = n, answers = es1 @ (i, JStr ''unknown'') # es2\<rparr> # ys) k
       = votes (xs @ \<lparr>name = n, answers = es1 @ es2\<rparr> # ys) k"
  by (simp add: votes_def vote_insert_unknown [OF assms])

lemma scored_insert_unknown:
  assumes "i \<notin> fst ` set (es1 @ es2)"
  shows "scored places (xs @ \<lparr>name = n, answers = es1 @ (i, JStr ''unknown'') # es2\<rparr> # ys)
       = scored places (xs @ \<lparr>name = n, answers = es1 @ es2\<rparr> # ys)"
  by (rule scored_cong) (simp_all add: votes_insert_unknown [OF assms])

subsection \<open>Tier membership\<close>

text \<open>The tallies of a scored place depend on its id only, so exclusion by id (\<open>usedIds\<close>) is exclusion of the classified places.\<close>

lemma placeScores_mem:
  "a \<in> set (placeScores places pp) \<Longrightarrow>
     \<exists>x \<in> set places. a = boost (cuisineFrequency (scored places pp)) (scorePlace pp x)"
  by (auto simp: placeScores_def scored_def Let_def)

lemma same_id_same_tallies:
  assumes "a \<in> set (placeScores places pp)" "b \<in> set (placeScores places pp)"
    and "place_id a = place_id b"
  shows "loveCount a = loveCount b" "likeCount a = likeCount b" "nopeCount a = nopeCount b"
    "allPositive a = allPositive b" "noneNope a = noneNope b" "score a = score b"
proof -
  obtain x y where a: "a = boost (cuisineFrequency (scored places pp)) (scorePlace pp x)"
    and b: "b = boost (cuisineFrequency (scored places pp)) (scorePlace pp y)"
    using assms(1,2) placeScores_mem by blast
  have xy: "place_id x = place_id y"
    using assms(3) by (simp add: a b boost_fields scorePlace_fields)
  show "loveCount a = loveCount b" "likeCount a = likeCount b" "nopeCount a = nopeCount b"
    by (simp_all add: a b boost_fields scorePlace_fields xy)
  then show "allPositive a = allPositive b" "noneNope a = noneNope b" "score a = score b"
    by (simp_all add: a b boost_fields scorePlace_derived)
qed

lemma set_sharedFavorites:
  "set (sharedFavorites ps) = {p \<in> set ps. allPositive p \<and> loveCount p > 0}"
  by (simp add: sharedFavorites_def set_sort_by)

lemma set_placesToTry:
  "set (placesToTry ps) = {p \<in> set ps. noneNope p \<and> \<not> allPositive p}"
  by (simp add: placesToTry_def set_sort_by)

lemma usedIds_iff:
  assumes "ps = placeScores places pp" and "p \<in> set ps"
  shows "place_id p \<in> usedIds ps \<longleftrightarrow> p \<in> set (sharedFavorites ps) \<or> p \<in> set (placesToTry ps)"
proof
  assume "place_id p \<in> usedIds ps"
  then obtain q where q: "q \<in> set (sharedFavorites ps) \<or> q \<in> set (placesToTry ps)"
    and id: "place_id p = place_id q"
    by (auto simp: usedIds_def)
  then have qps: "q \<in> set ps" by (auto simp: set_sharedFavorites set_placesToTry)
  have "allPositive q = allPositive p" "loveCount q = loveCount p" "noneNope q = noneNope p"
    using same_id_same_tallies [of q places pp p] qps assms id [symmetric] by simp_all
  with q assms(2) show "p \<in> set (sharedFavorites ps) \<or> p \<in> set (placesToTry ps)"
    by (auto simp: set_sharedFavorites set_placesToTry)
next
  assume "p \<in> set (sharedFavorites ps) \<or> p \<in> set (placesToTry ps)"
  then show "place_id p \<in> usedIds ps" by (auto simp: usedIds_def)
qed

subsection \<open>Distinct ids\<close>

lemma distinct_ids_sort_filter:
  assumes "distinct (map f xs)"
  shows "distinct (map f (sort_by cmp (filter P xs)))"
proof -
  have 1: "distinct (map f (filter P xs))" using assms by (rule distinct_map_filter)
  have 2: "mset (map f (sort_by cmp (filter P xs))) = mset (map f (filter P xs))"
    by (simp add: mset_sort_by)
  show ?thesis using mset_eq_imp_distinct_iff [OF 2] 1 by blast
qed

lemma distinct_ids_sort:
  assumes "distinct (map f xs)"
  shows "distinct (map f (sort_by cmp xs))"
  using distinct_ids_sort_filter [OF assms, of cmp "\<lambda>_. True"] by simp

lemma distinct_ids_take: "distinct (map f xs) \<Longrightarrow> distinct (map f (take n xs))"
  using distinct_take [of "map f xs" n] by (simp only: take_map)

lemma tiers_disjoint_ids:
  assumes "ps = placeScores places pp"
  shows "place_id ` set (sharedFavorites ps) \<inter> place_id ` set (placesToTry ps) = {}"
    "place_id ` set (sharedFavorites ps) \<inter> place_id ` set (bestBets ps) = {}"
    "place_id ` set (placesToTry ps) \<inter> place_id ` set (bestBets ps) = {}"
proof -
  show "place_id ` set (sharedFavorites ps) \<inter> place_id ` set (placesToTry ps) = {}"
  proof (rule ccontr)
    assume "place_id ` set (sharedFavorites ps) \<inter> place_id ` set (placesToTry ps) \<noteq> {}"
    then obtain a b where a: "a \<in> set (sharedFavorites ps)" and b: "b \<in> set (placesToTry ps)"
      and id: "place_id a = place_id b" by auto
    have "allPositive a = allPositive b"
      using same_id_same_tallies(4) [of a places pp b] a b id assms
      by (simp add: set_sharedFavorites set_placesToTry)
    with a b show False by (simp add: set_sharedFavorites set_placesToTry)
  qed
  have bb: "place_id b \<notin> usedIds ps" if "b \<in> set (bestBets ps)" for b
  proof -
    from that have "b \<in> set (sort_by byBoostedDesc
        (filter (\<lambda>p. place_id p \<notin> usedIds ps \<and> score p > 0) ps))"
      unfolding bestBets_def by (rule in_set_takeD)
    then show ?thesis by (simp add: set_sort_by)
  qed
  show "place_id ` set (sharedFavorites ps) \<inter> place_id ` set (bestBets ps) = {}"
  proof (rule ccontr)
    assume "place_id ` set (sharedFavorites ps) \<inter> place_id ` set (bestBets ps) \<noteq> {}"
    then obtain a b where a: "a \<in> set (sharedFavorites ps)" and b: "b \<in> set (bestBets ps)"
      and id: "place_id a = place_id b" by auto
    from a id have "place_id b \<in> usedIds ps" by (simp add: usedIds_def image_iff) metis
    with bb [OF b] show False by simp
  qed
  show "place_id ` set (placesToTry ps) \<inter> place_id ` set (bestBets ps) = {}"
  proof (rule ccontr)
    assume "place_id ` set (placesToTry ps) \<inter> place_id ` set (bestBets ps) \<noteq> {}"
    then obtain a b where a: "a \<in> set (placesToTry ps)" and b: "b \<in> set (bestBets ps)"
      and id: "place_id a = place_id b" by auto
    from a id have "place_id b \<in> usedIds ps" by (simp add: usedIds_def image_iff) metis
    with bb [OF b] show False by simp
  qed
qed

lemma take_image_subset: "f ` set (take n xs) \<subseteq> f ` set xs"
  by (rule image_mono) (rule set_take_subset)

lemma disjoint_mono: "A \<inter> B = {} \<Longrightarrow> A' \<subseteq> A \<Longrightarrow> B' \<subseteq> B \<Longrightarrow> A' \<inter> B' = {}"
  by blast

lemma sorted_take_drop:
  assumes "sorted_wrt R xs" and "a \<in> set (take n xs)" and "b \<in> set (drop n xs)"
  shows "R a b"
proof -
  have "sorted_wrt R (take n xs @ drop n xs)" using assms(1) by simp
  then show ?thesis using assms(2,3) unfolding sorted_wrt_append by blast
qed

subsection \<open>The cuisine frequency table\<close>

lemma count_distinct: "distinct xs \<Longrightarrow> count_list xs t = (if t \<in> set xs then 1 else 0)"
  by (induction xs) auto

lemma map_of_retag:
  "map_of (map (\<lambda>(k, v). if k = c then (k, w) else (k, v)) tb) t
     = (if t = c then (if c \<in> fst ` set tb then Some w else None) else map_of tb t)"
  by (induction tb) (auto split: if_splits)

lemma lookup0_bump: "lookup0 (bump n c tb) t = lookup0 tb t + (if t = c then n else 0)"
proof (cases "c \<in> fst ` set tb")
  case True
  then show ?thesis
    by (simp add: bump_def lookup0_def map_of_retag)
next
  case False
  then have none: "map_of tb c = None" by (simp add: map_of_eq_None_iff)
  show ?thesis
  proof (cases "t = c")
    case True
    then show ?thesis using False none by (simp add: bump_def lookup0_def map_add_def)
  next
    case neq: False
    then show ?thesis using False
      by (cases "map_of tb t") (simp_all add: bump_def lookup0_def map_add_def)
  qed
qed

lemma lookup0_fold_bump:
  "lookup0 (fold (bump n) cs tb) t = lookup0 tb t + n * int (count_list cs t)"
  by (induction cs arbitrary: tb) (simp_all add: lookup0_bump algebra_simps)

lemma tags_no_cuisine: "\<not> has_cuisine p \<Longrightarrow> tags p = []"
  by (auto simp: has_cuisine_def tags_def split: option.splits)

lemma lookup0_Nil: "lookup0 [] t = 0"
  by (simp add: lookup0_def)

lemma lookup0_cuisineFrequency:
  "lookup0 (cuisineFrequency sc) t
     = (\<Sum>s\<leftarrow>sc. int (count_list (tags s) t) * int (positiveSignal s))"
proof -
  have "lookup0 (fold (\<lambda>p table. if positiveSignal p > 0 \<and> has_cuisine p
             then fold (bump (int (positiveSignal p))) (tags p) table else table) sc tb) t
        = lookup0 tb t + (\<Sum>s\<leftarrow>sc. int (count_list (tags s) t) * int (positiveSignal s))" for tb
  proof (induction sc arbitrary: tb)
    case Nil
    then show ?case by simp
  next
    case (Cons p sc)
    show ?case
    proof (cases "positiveSignal p > 0 \<and> has_cuisine p")
      case True
      then show ?thesis by (simp add: Cons.IH lookup0_fold_bump algebra_simps)
    next
      case False
      then have z: "int (count_list (tags p) t) * int (positiveSignal p) = 0"
        by (auto simp: tags_no_cuisine)
      have "fold (\<lambda>p table. if positiveSignal p > 0 \<and> has_cuisine p
             then fold (bump (int (positiveSignal p))) (tags p) table else table) (p # sc) tb
          = fold (\<lambda>p table. if positiveSignal p > 0 \<and> has_cuisine p
             then fold (bump (int (positiveSignal p))) (tags p) table else table) sc tb"
        by (simp only: fold_simps o_apply if_not_P [OF False])
      then show ?thesis using z by (simp only: Cons.IH list.map sum_list.Cons)
    qed
  qed
  from this [of "[]"] show ?thesis by (simp add: cuisineFrequency_def lookup0_Nil)
qed

lemma bonus_sum_list: "bonus table p = (\<Sum>c\<leftarrow>tags p. lookup0 table c)"
proof -
  have "fold (\<lambda>c sum. sum + lookup0 table c) cs a = a + (\<Sum>c\<leftarrow>cs. lookup0 table c)" for cs a
    by (induction cs arbitrary: a) simp_all
  then show ?thesis by (simp add: bonus_def)
qed

lemma sum_list_count_distinct:
  assumes "\<And>s. s \<in> set xs \<Longrightarrow> distinct (tg s)"
  shows "(\<Sum>s\<leftarrow>xs. int (count_list (tg s) t) * f s)
       = (\<Sum>s\<leftarrow>filter (\<lambda>s. t \<in> set (tg s)) xs. f s)"
  using assms
proof (induction xs)
  case Nil
  then show ?case by simp
next
  case (Cons x xs)
  have "count_list (tg x) t = (if t \<in> set (tg x) then 1 else 0)"
    using Cons.prems [of x] by (simp add: count_distinct)
  then show ?case using Cons by simp
qed

lemma positiveSignal_boost: "positiveSignal (boost t p) = positiveSignal p"
  by (simp add: positiveSignal_def boost_fields)

lemma lookup0_cuisineFrequency_placeScores:
  "lookup0 (cuisineFrequency (scored places pp)) t
     = (\<Sum>s\<leftarrow>placeScores places pp. int (count_list (tags s) t) * int (loveCount s + likeCount s))"
proof -
  have "(\<Sum>s\<leftarrow>placeScores places pp. int (count_list (tags s) t) * int (loveCount s + likeCount s))
      = (\<Sum>s\<leftarrow>scored places pp. int (count_list (tags s) t) * int (positiveSignal s))"
    by (simp add: placeScores_def Let_def o_def tags_boost boost_fields positiveSignal_def)
  then show ?thesis by (simp add: lookup0_cuisineFrequency)
qed

subsection \<open>One more love vote\<close>

lemma tally_Cons: "tally w (v # vs) = (if v = JStr w then 1 else 0) + tally w vs"
  by (simp add: tally_def)

lemma tally_update:
  "j < length vs \<Longrightarrow>
     tally w (vs[j := u]) + (if vs ! j = JStr w then 1 else 0)
       = tally w vs + (if u = JStr w then 1 else 0)"
proof (induction vs arbitrary: j)
  case Nil
  then show ?case by simp
next
  case (Cons v vs)
  show ?case
  proof (cases j)
    case 0
    then show ?thesis by (simp add: tally_Cons)
  next
    case (Suc k)
    then have "k < length vs" using Cons.prems by simp
    from Cons.IH [OF this] have
      "tally w (vs[k := u]) + (if vs ! k = JStr w then 1 else 0)
         = tally w vs + (if u = JStr w then 1 else 0)" .
    then show ?thesis unfolding Suc list_update_code nth_Cons_Suc tally_Cons by linarith
  qed
qed

lemma votes_other:
  assumes "length pp' = length pp"
    and "\<forall>k<length pp. \<forall>c. (k, c) \<noteq> (j, i) \<longrightarrow> vote (pp' ! k) c = vote (pp ! k) c"
    and "c \<noteq> i"
  shows "votes pp' c = votes pp c"
proof (rule nth_equalityI)
  show "length (votes pp' c) = length (votes pp c)"
    using assms(1) by (simp add: votes_def)
next
  fix k assume "k < length (votes pp' c)"
  then have k: "k < length pp" using assms(1) by (simp add: votes_def)
  have "(k, c) \<noteq> (j, i)" using assms(3) by simp
  then have "vote (pp' ! k) c = vote (pp ! k) c" using assms(2) k by blast
  then show "votes pp' c ! k = votes pp c ! k" using k assms(1) by (simp add: votes_def)
qed

lemma votes_changed:
  assumes "length pp' = length pp" and "j < length pp"
    and "\<forall>k<length pp. \<forall>c. (k, c) \<noteq> (j, i) \<longrightarrow> vote (pp' ! k) c = vote (pp ! k) c"
    and "vote (pp' ! j) i = u"
  shows "votes pp' i = (votes pp i)[j := u]"
proof (rule nth_equalityI)
  show "length (votes pp' i) = length ((votes pp i)[j := u])"
    using assms(1) by (simp add: votes_def)
next
  fix k assume "k < length (votes pp' i)"
  then have k: "k < length pp" using assms(1) by (simp add: votes_def)
  show "votes pp' i ! k = (votes pp i)[j := u] ! k"
  proof (cases "k = j")
    case True
    then show ?thesis using k assms(1,4) by (simp add: votes_def)
  next
    case False
    then have "vote (pp' ! k) i = vote (pp ! k) i" using assms(3) k by simp
    then show ?thesis using False k assms(1) by (simp add: votes_def)
  qed
qed

lemma scorePlace_other:
  assumes "length pp' = length pp"
    and "\<forall>k<length pp. \<forall>c. (k, c) \<noteq> (j, i) \<longrightarrow> vote (pp' ! k) c = vote (pp ! k) c"
    and "place_id x \<noteq> i"
  shows "scorePlace pp' x = scorePlace pp x"
  using votes_other [OF assms(1,2), of "place_id x"] assms(1,3)
  by (simp add: scorePlace_def)

lemma scorePlace_changed:
  assumes "length pp' = length pp" and "j < length pp"
    and "\<forall>k<length pp. \<forall>c. (k, c) \<noteq> (j, i) \<longrightarrow> vote (pp' ! k) c = vote (pp ! k) c"
    and "vote (pp ! j) i \<noteq> JStr ''love''" and "vote (pp' ! j) i = JStr ''love''"
    and "place_id x = i"
  shows "loveCount (scorePlace pp' x) = loveCount (scorePlace pp x) + 1"
    and "score (scorePlace pp' x) \<ge> score (scorePlace pp x)"
    and "positiveSignal (scorePlace pp' x) \<ge> positiveSignal (scorePlace pp x)"
proof -
  let ?vs = "votes pp i"
  have len: "j < length ?vs" using assms(2) by (simp add: votes_def)
  have old: "?vs ! j \<noteq> JStr ''love''" using assms(2,4) by (simp add: votes_def)
  have vs': "votes pp' i = ?vs[j := JStr ''love'']"
    by (rule votes_changed [OF assms(1,2,3,5)])
  have lo: "tally ''love'' (votes pp' i) = tally ''love'' ?vs + 1"
    using tally_update [OF len, of "''love''" "JStr ''love''"] old by (simp add: vs')
  have li: "tally ''like'' (votes pp' i) + (if ?vs ! j = JStr ''like'' then 1 else 0)
              = tally ''like'' ?vs"
    using tally_update [OF len, of "''like''" "JStr ''love''"] by (simp add: vs')
  have no: "tally ''nope'' (votes pp' i) + (if ?vs ! j = JStr ''nope'' then 1 else 0)
              = tally ''nope'' ?vs"
    using tally_update [OF len, of "''nope''" "JStr ''love''"] by (simp add: vs')
  show "loveCount (scorePlace pp' x) = loveCount (scorePlace pp x) + 1"
    using lo by (simp add: scorePlace_fields assms(6))
  show "score (scorePlace pp' x) \<ge> score (scorePlace pp x)"
    using lo li no by (simp add: scorePlace_derived scorePlace_fields assms(6) split: if_splits)
  show "positiveSignal (scorePlace pp' x) \<ge> positiveSignal (scorePlace pp x)"
    using lo li by (simp add: positiveSignal_def scorePlace_fields assms(6) split: if_splits)
qed

lemma positiveSignal_mono:
  assumes "length pp' = length pp" and "j < length pp"
    and "\<forall>k<length pp. \<forall>c. (k, c) \<noteq> (j, i) \<longrightarrow> vote (pp' ! k) c = vote (pp ! k) c"
    and "vote (pp ! j) i \<noteq> JStr ''love''" and "vote (pp' ! j) i = JStr ''love''"
  shows "positiveSignal (scorePlace pp' x) \<ge> positiveSignal (scorePlace pp x)"
proof (cases "place_id x = i")
  case True
  then show ?thesis by (rule scorePlace_changed(3) [OF assms])
next
  case False
  then show ?thesis using scorePlace_other [OF assms(1,3)] by simp
qed

lemma table_mono:
  assumes "length pp' = length pp" and "j < length pp"
    and "\<forall>k<length pp. \<forall>c. (k, c) \<noteq> (j, i) \<longrightarrow> vote (pp' ! k) c = vote (pp ! k) c"
    and "vote (pp ! j) i \<noteq> JStr ''love''" and "vote (pp' ! j) i = JStr ''love''"
  shows "lookup0 (cuisineFrequency (scored places pp')) t
           \<ge> lookup0 (cuisineFrequency (scored places pp)) t"
proof -
  have "(\<Sum>x\<leftarrow>places. int (count_list (tags x) t) * int (positiveSignal (scorePlace pp x)))
      \<le> (\<Sum>x\<leftarrow>places. int (count_list (tags x) t) * int (positiveSignal (scorePlace pp' x)))"
    by (rule sum_list_mono) (simp add: positiveSignal_mono [OF assms] mult_left_mono)
  then show ?thesis
    by (simp add: lookup0_cuisineFrequency scored_def o_def tags_scorePlace)
qed

lemma bonus_mono:
  assumes "\<And>t. lookup0 tb t \<le> lookup0 tb' t"
  shows "bonus tb p \<le> bonus tb' p"
  unfolding bonus_sum_list by (rule sum_list_mono) (simp add: assms)

subsection \<open>Tallies in terms of the entries of the ballots\<close>

lemma vote_verdict:
  assumes "w \<noteq> []" and "w \<noteq> ''unknown''"
  shows "(vote p i = JStr w) = (map_of (answers p) i = Some (JStr w))"
proof (cases "map_of (answers p) i")
  case None
  then show ?thesis using assms by (simp add: vote_def)
next
  case (Some v)
  then show ?thesis using assms by (cases v) (auto simp: vote_def)
qed

lemma vote_unknown:
  "(vote p i = JStr ''unknown'')
     = (map_of (answers p) i \<in> {Some (JStr ''unknown''), None, Some JNull, Some (JBool False),
                                Some (JNum 0), Some (JStr [])})"
proof (cases "map_of (answers p) i")
  case None
  then show ?thesis by (simp add: vote_def)
next
  case (Some v)
  then show ?thesis by (cases v) (auto simp: vote_def)
qed

lemma tally_votes: "tally w (votes pp i) = length (filter (\<lambda>p. vote p i = JStr w) pp)"
  by (simp add: tally_def votes_def filter_map o_def)

lemma tally_entries:
  "tally ''love'' (votes pp i) = length (filter (\<lambda>p. map_of (answers p) i = Some (JStr ''love'')) pp)"
  "tally ''like'' (votes pp i) = length (filter (\<lambda>p. map_of (answers p) i = Some (JStr ''like'')) pp)"
  "tally ''meh'' (votes pp i) = length (filter (\<lambda>p. map_of (answers p) i = Some (JStr ''meh'')) pp)"
  "tally ''nope'' (votes pp i) = length (filter (\<lambda>p. map_of (answers p) i = Some (JStr ''nope'')) pp)"
  by (simp_all add: tally_votes vote_verdict)

lemma tally_unknown_entries:
  "tally ''unknown'' (votes pp i)
     = length (filter (\<lambda>p. map_of (answers p) i
                             \<in> {Some (JStr ''unknown''), None, Some JNull, Some (JBool False),
                                Some (JNum 0), Some (JStr [])}) pp)"
  by (simp only: tally_votes vote_unknown)

subsection \<open>Best bets: the candidates that qualify for neither of the first two tiers\<close>

lemma bestBets_unqualified:
  assumes "ps = placeScores places pp"
  shows "bestBets ps =
     take 5 (sort_by byBoostedDesc
       (filter (\<lambda>p. \<not> (allPositive p \<and> loveCount p > 0)
                       \<and> \<not> (noneNope p \<and> \<not> allPositive p) \<and> score p > 0) ps))"
proof -
  have "filter (\<lambda>p. place_id p \<notin> usedIds ps \<and> score p > 0) ps
      = filter (\<lambda>p. \<not> (allPositive p \<and> loveCount p > 0)
                       \<and> \<not> (noneNope p \<and> \<not> allPositive p) \<and> score p > 0) ps"
  proof (rule filter_cong [OF refl])
    fix p assume p: "p \<in> set ps"
    have "place_id p \<in> usedIds ps
            \<longleftrightarrow> (allPositive p \<and> loveCount p > 0) \<or> (noneNope p \<and> \<not> allPositive p)"
      using p by (simp add: usedIds_iff [OF assms p] set_sharedFavorites set_placesToTry)
    then show "(place_id p \<notin> usedIds ps \<and> score p > 0)
             = (\<not> (allPositive p \<and> loveCount p > 0)
                       \<and> \<not> (noneNope p \<and> \<not> allPositive p) \<and> score p > 0)"
      by blast
  qed
  then show ?thesis by (simp add: bestBets_def)
qed

section \<open>The claims\<close>

text \<open>
  Claim C1 as stated fails for the tiers that are returned: the shared-favorites and the
  to-try tier are cut to ten entries (lines 574 and 575). With eleven places, all loved by
  the one participant, all eleven have \<open>allPositive\<close> and \<open>loveCount > 0\<close>, but the
  shared-favorites tier of the result holds ten of them.
\<close>

theorem C1_counterexample:
  "\<not> (mset (shared_favorites (aggregate
       (map (\<lambda>n. \<lparr>place_id = ''osm_'' @ show_nat n, place_name = [], cuisine = None\<rparr>) [0..<11])
       [\<lparr>name = ''ann'', answers = map (\<lambda>n. (''osm_'' @ show_nat n, JStr ''love'')) [0..<11]\<rparr>]))
      = filter_mset (\<lambda>p. allPositive p \<and> loveCount p > 0)
          (mset (placeScores
       (map (\<lambda>n. \<lparr>place_id = ''osm_'' @ show_nat n, place_name = [], cuisine = None\<rparr>) [0..<11])
       [\<lparr>name = ''ann'', answers = map (\<lambda>n. (''osm_'' @ show_nat n, JStr ''love'')) [0..<11]\<rparr>])))"
proof
  assume eq: "mset (shared_favorites (aggregate
       (map (\<lambda>n. \<lparr>place_id = ''osm_'' @ show_nat n, place_name = [], cuisine = None\<rparr>) [0..<11])
       [\<lparr>name = ''ann'', answers = map (\<lambda>n. (''osm_'' @ show_nat n, JStr ''love'')) [0..<11]\<rparr>]))
      = filter_mset (\<lambda>p. allPositive p \<and> loveCount p > 0)
          (mset (placeScores
       (map (\<lambda>n. \<lparr>place_id = ''osm_'' @ show_nat n, place_name = [], cuisine = None\<rparr>) [0..<11])
       [\<lparr>name = ''ann'', answers = map (\<lambda>n. (''osm_'' @ show_nat n, JStr ''love'')) [0..<11]\<rparr>]))"
  have a: "length (shared_favorites (aggregate
       (map (\<lambda>n. \<lparr>place_id = ''osm_'' @ show_nat n, place_name = [], cuisine = None\<rparr>) [0..<11])
       [\<lparr>name = ''ann'', answers = map (\<lambda>n. (''osm_'' @ show_nat n, JStr ''love'')) [0..<11]\<rparr>])) = 10"
    by code_simp
  have b: "length (filter (\<lambda>p. allPositive p \<and> loveCount p > 0)
          (placeScores
       (map (\<lambda>n. \<lparr>place_id = ''osm_'' @ show_nat n, place_name = [], cuisine = None\<rparr>) [0..<11])
       [\<lparr>name = ''ann'', answers = map (\<lambda>n. (''osm_'' @ show_nat n, JStr ''love'')) [0..<11]\<rparr>])) = 11"
    by code_simp
  from arg_cong [OF eq, of size] a b show False by (simp flip: mset_filter)
qed

text \<open>
  Claim C1, amended. In the result, the shared-favorites tier is the first ten of the
  scored candidates with \<open>allPositive\<close> and \<open>loveCount > 0\<close>, ranked in descending order
  of \<open>boostedScore\<close>, and the to-try tier is the first ten of those with \<open>noneNope\<close> and
  not \<open>allPositive\<close>, ranked likewise. The best-bets tier is the first five of the
  candidates that qualify for neither of these two tiers (returned there or cut off) and
  have \<open>score > 0\<close>, ranked in descending order of \<open>boostedScore\<close>. The fallback tier
  is non-empty only when the three tiers are all empty, and then it is the first three of
  all candidates ranked by \<open>nopeCount\<close> ascending, then \<open>loveCount\<close> descending, then
  \<open>likeCount\<close> descending.
\<close>

theorem C1_tiers_amended:
  assumes "r = aggregate places pp"
    and "ps = placeScores places pp"
  shows "(\<exists>ranked. shared_favorites r = take 10 ranked
             \<and> mset ranked = filter_mset (\<lambda>p. allPositive p \<and> loveCount p > 0) (mset ps)
             \<and> sorted_wrt (\<lambda>a b. boostedScore a \<ge> boostedScore b) ranked)
       \<and> (\<exists>ranked. places_to_try r = take 10 ranked
             \<and> mset ranked = filter_mset (\<lambda>p. noneNope p \<and> \<not> allPositive p) (mset ps)
             \<and> sorted_wrt (\<lambda>a b. boostedScore a \<ge> boostedScore b) ranked)
       \<and> (\<exists>ranked. best_bets r = take 5 ranked
             \<and> mset ranked
                 = filter_mset (\<lambda>p. \<not> (allPositive p \<and> loveCount p > 0)
                       \<and> \<not> (noneNope p \<and> \<not> allPositive p) \<and> score p > 0) (mset ps)
             \<and> sorted_wrt (\<lambda>a b. boostedScore a \<ge> boostedScore b) ranked)
       \<and> (fallback_picks r \<noteq> [] \<longrightarrow>
             shared_favorites r = [] \<and> places_to_try r = [] \<and> best_bets r = [])
       \<and> (shared_favorites r = [] \<and> places_to_try r = [] \<and> best_bets r = [] \<longrightarrow>
             (\<exists>ranked. fallback_picks r = take 3 ranked \<and> mset ranked = mset ps
                \<and> sorted_wrt (\<lambda>a b. nopeCount a < nopeCount b
                      \<or> nopeCount a = nopeCount b
                        \<and> (loveCount a > loveCount b
                           \<or> loveCount a = loveCount b \<and> likeCount a \<ge> likeCount b)) ranked))"
proof -
  have r: "shared_favorites r = take 10 (sharedFavorites ps)"
    "places_to_try r = take 10 (placesToTry ps)"
    "best_bets r = bestBets ps" "fallback_picks r = fallbackPicks ps"
    by (simp_all add: assms aggregate_fields)
  have 1: "\<exists>ranked. shared_favorites r = take 10 ranked
             \<and> mset ranked = filter_mset (\<lambda>p. allPositive p \<and> loveCount p > 0) (mset ps)
             \<and> sorted_wrt (\<lambda>a b. boostedScore a \<ge> boostedScore b) ranked"
  proof (intro exI conjI)
    show "shared_favorites r = take 10 (sharedFavorites ps)" by (fact r(1))
    show "mset (sharedFavorites ps) = filter_mset (\<lambda>p. allPositive p \<and> loveCount p > 0) (mset ps)"
      by (simp add: sharedFavorites_def mset_sort_by)
    show "sorted_wrt (\<lambda>a b. boostedScore a \<ge> boostedScore b) (sharedFavorites ps)"
      by (simp add: sharedFavorites_def sorted_byBoostedDesc)
  qed
  have 2: "\<exists>ranked. places_to_try r = take 10 ranked
             \<and> mset ranked = filter_mset (\<lambda>p. noneNope p \<and> \<not> allPositive p) (mset ps)
             \<and> sorted_wrt (\<lambda>a b. boostedScore a \<ge> boostedScore b) ranked"
  proof (intro exI conjI)
    show "places_to_try r = take 10 (placesToTry ps)" by (fact r(2))
    show "mset (placesToTry ps) = filter_mset (\<lambda>p. noneNope p \<and> \<not> allPositive p) (mset ps)"
      by (simp add: placesToTry_def mset_sort_by)
    show "sorted_wrt (\<lambda>a b. boostedScore a \<ge> boostedScore b) (placesToTry ps)"
      by (simp add: placesToTry_def sorted_byBoostedDesc)
  qed
  let ?ranked = "sort_by byBoostedDesc
       (filter (\<lambda>p. \<not> (allPositive p \<and> loveCount p > 0)
                       \<and> \<not> (noneNope p \<and> \<not> allPositive p) \<and> score p > 0) ps)"
  have 3: "\<exists>ranked. best_bets r = take 5 ranked
             \<and> mset ranked
                 = filter_mset (\<lambda>p. \<not> (allPositive p \<and> loveCount p > 0)
                       \<and> \<not> (noneNope p \<and> \<not> allPositive p) \<and> score p > 0) (mset ps)
             \<and> sorted_wrt (\<lambda>a b. boostedScore a \<ge> boostedScore b) ranked"
  proof (intro exI conjI)
    show "best_bets r = take 5 ?ranked"
      unfolding r by (rule bestBets_unqualified [OF assms(2)])
    show "mset ?ranked = filter_mset (\<lambda>p. \<not> (allPositive p \<and> loveCount p > 0)
                       \<and> \<not> (noneNope p \<and> \<not> allPositive p) \<and> score p > 0) (mset ps)"
      by (simp add: mset_sort_by)
    show "sorted_wrt (\<lambda>a b. boostedScore a \<ge> boostedScore b) ?ranked"
      by (rule sorted_byBoostedDesc)
  qed
  have 4: "fallback_picks r \<noteq> [] \<longrightarrow>
             shared_favorites r = [] \<and> places_to_try r = [] \<and> best_bets r = []"
    by (simp add: r fallbackPicks_def)
  have 5: "\<exists>ranked. fallback_picks r = take 3 ranked \<and> mset ranked = mset ps
                \<and> sorted_wrt (\<lambda>a b. nopeCount a < nopeCount b
                      \<or> nopeCount a = nopeCount b
                        \<and> (loveCount a > loveCount b
                           \<or> loveCount a = loveCount b \<and> likeCount a \<ge> likeCount b)) ranked"
    if e: "shared_favorites r = [] \<and> places_to_try r = [] \<and> best_bets r = []"
  proof (intro exI conjI)
    show "fallback_picks r = take 3 (sort_by leastHated ps)"
      using e by (simp add: r take10_Nil fallbackPicks_def)
    show "mset (sort_by leastHated ps) = mset ps" by (rule mset_sort_by)
    show "sorted_wrt (\<lambda>a b. nopeCount a < nopeCount b
                      \<or> nopeCount a = nopeCount b
                        \<and> (loveCount a > loveCount b
                           \<or> loveCount a = loveCount b \<and> likeCount a \<ge> likeCount b)) (sort_by leastHated ps)"
      using sorted_leastHated [of ps] by (simp add: leastHated_le)
  qed
  show ?thesis using 1 2 3 4 5 by blast
qed

text \<open>
  Witness for C1: three places and two ballots put one place in each of the first three
  tiers of the result (love and like; meh and no entry; love and nope with score 1), and
  one place with the ballots like and nope (score \<open>-1\<close>) leaves them empty and fills the
  fallback tier.
\<close>

theorem C1_tiers_amended_witness:
  "map place_id (shared_favorites (aggregate
     [\<lparr>place_id = ''osm_1'', place_name = ''Luigi'', cuisine = None\<rparr>,
      \<lparr>place_id = ''osm_2'', place_name = ''Wok'', cuisine = None\<rparr>,
      \<lparr>place_id = ''osm_3'', place_name = ''Taco'', cuisine = None\<rparr>]
     [\<lparr>name = ''ann'', answers = [(''osm_1'', JStr ''love''), (''osm_2'', JStr ''meh''), (''osm_3'', JStr ''love'')]\<rparr>,
      \<lparr>name = ''bob'', answers = [(''osm_1'', JStr ''like''), (''osm_3'', JStr ''nope'')]\<rparr>])) = [''osm_1'']
   \<and> map place_id (places_to_try (aggregate
     [\<lparr>place_id = ''osm_1'', place_name = ''Luigi'', cuisine = None\<rparr>,
      \<lparr>place_id = ''osm_2'', place_name = ''Wok'', cuisine = None\<rparr>,
      \<lparr>place_id = ''osm_3'', place_name = ''Taco'', cuisine = None\<rparr>]
     [\<lparr>name = ''ann'', answers = [(''osm_1'', JStr ''love''), (''osm_2'', JStr ''meh''), (''osm_3'', JStr ''love'')]\<rparr>,
      \<lparr>name = ''bob'', answers = [(''osm_1'', JStr ''like''), (''osm_3'', JStr ''nope'')]\<rparr>])) = [''osm_2'']
   \<and> map place_id (best_bets (aggregate
     [\<lparr>place_id = ''osm_1'', place_name = ''Luigi'', cuisine = None\<rparr>,
      \<lparr>place_id = ''osm_2'', place_name = ''Wok'', cuisine = None\<rparr>,
      \<lparr>place_id = ''osm_3'', place_name = ''Taco'', cuisine = None\<rparr>]
     [\<lparr>name = ''ann'', answers = [(''osm_1'', JStr ''love''), (''osm_2'', JStr ''meh''), (''osm_3'', JStr ''love'')]\<rparr>,
      \<lparr>name = ''bob'', answers = [(''osm_1'', JStr ''like''), (''osm_3'', JStr ''nope'')]\<rparr>])) = [''osm_3'']
   \<and> fallback_picks (aggregate
     [\<lparr>place_id = ''osm_1'', place_name = ''Luigi'', cuisine = None\<rparr>,
      \<lparr>place_id = ''osm_2'', place_name = ''Wok'', cuisine = None\<rparr>,
      \<lparr>place_id = ''osm_3'', place_name = ''Taco'', cuisine = None\<rparr>]
     [\<lparr>name = ''ann'', answers = [(''osm_1'', JStr ''love''), (''osm_2'', JStr ''meh''), (''osm_3'', JStr ''love'')]\<rparr>,
      \<lparr>name = ''bob'', answers = [(''osm_1'', JStr ''like''), (''osm_3'', JStr ''nope'')]\<rparr>]) = []
   \<and> fallback_picks (aggregate [\<lparr>place_id = ''osm_1'', place_name = ''Luigi'', cuisine = None\<rparr>]
     [\<lparr>name = ''ann'', answers = [(''osm_1'', JStr ''like'')]\<rparr>,
      \<lparr>name = ''bob'', answers = [(''osm_1'', JStr ''nope'')]\<rparr>]) \<noteq> []
   \<and> shared_favorites (aggregate [\<lparr>place_id = ''osm_1'', place_name = ''Luigi'', cuisine = None\<rparr>]
     [\<lparr>name = ''ann'', answers = [(''osm_1'', JStr ''like'')]\<rparr>,
      \<lparr>name = ''bob'', answers = [(''osm_1'', JStr ''nope'')]\<rparr>]) = []
   \<and> places_to_try (aggregate [\<lparr>place_id = ''osm_1'', place_name = ''Luigi'', cuisine = None\<rparr>]
     [\<lparr>name = ''ann'', answers = [(''osm_1'', JStr ''like'')]\<rparr>,
      \<lparr>name = ''bob'', answers = [(''osm_1'', JStr ''nope'')]\<rparr>]) = []
   \<and> best_bets (aggregate [\<lparr>place_id = ''osm_1'', place_name = ''Luigi'', cuisine = None\<rparr>]
     [\<lparr>name = ''ann'', answers = [(''osm_1'', JStr ''like'')]\<rparr>,
      \<lparr>name = ''bob'', answers = [(''osm_1'', JStr ''nope'')]\<rparr>]) = []"
proof -
  let ?ra = "aggregate
     [\<lparr>place_id = ''osm_1'', place_name = ''Luigi'', cuisine = None\<rparr>,
      \<lparr>place_id = ''osm_2'', place_name = ''Wok'', cuisine = None\<rparr>,
      \<lparr>place_id = ''osm_3'', place_name = ''Taco'', cuisine = None\<rparr>]
     [\<lparr>name = ''ann'', answers = [(''osm_1'', JStr ''love''), (''osm_2'', JStr ''meh''), (''osm_3'', JStr ''love'')]\<rparr>,
      \<lparr>name = ''bob'', answers = [(''osm_1'', JStr ''like''), (''osm_3'', JStr ''nope'')]\<rparr>]"
  let ?rb = "aggregate [\<lparr>place_id = ''osm_1'', place_name = ''Luigi'', cuisine = None\<rparr>]
     [\<lparr>name = ''ann'', answers = [(''osm_1'', JStr ''like'')]\<rparr>,
      \<lparr>name = ''bob'', answers = [(''osm_1'', JStr ''nope'')]\<rparr>]"
  have a: "map place_id (shared_favorites ?ra) = [''osm_1'']" by code_simp
  have b: "map place_id (places_to_try ?ra) = [''osm_2'']" by code_simp
  have c: "map place_id (best_bets ?ra) = [''osm_3'']" by code_simp
  have d: "fallback_picks ?ra = []" by code_simp
  have e: "fallback_picks ?rb \<noteq> []" by code_simp
  show ?thesis
    using a b c d e C1_tiers_amended [OF refl refl, of "[\<lparr>place_id = ''osm_1'', place_name = ''Luigi'', cuisine = None\<rparr>]"
      "[\<lparr>name = ''ann'', answers = [(''osm_1'', JStr ''like'')]\<rparr>,
      \<lparr>name = ''bob'', answers = [(''osm_1'', JStr ''nope'')]\<rparr>]"]
    by blast
qed

text \<open>
  Claim C2. The n-th element of \<open>placeScores\<close> belongs to the n-th candidate. Its tallies
  \<open>loveCount\<close>, \<open>likeCount\<close>, \<open>mehCount\<close> and \<open>nopeCount\<close> are the numbers of supplied
  records whose entry for the id of that candidate is \<open>love\<close>, \<open>like\<close>, \<open>meh\<close> and \<open>nope\<close>;
  \<open>unknownCount\<close> is the number of records whose entry for that id is \<open>unknown\<close>, is
  missing or is falsy (\<open>null\<close>, \<open>false\<close>, \<open>0\<close>, the empty string). Its score is
  \<open>4*love + 2*like + 0*meh + 0*unknown - 3*nope\<close>; \<open>allLove\<close> says that the love tally is
  the number of participants, \<open>allPositive\<close> that love plus like is, and \<open>noneNope\<close> that
  the nope tally is zero.
\<close>

theorem C2_tallies_score_flags:
  assumes "n < length places"
    and "s = placeScores places pp ! n"
    and "i = place_id (places ! n)"
  shows "place_id s = i
       \<and> loveCount s = length (filter (\<lambda>p. map_of (answers p) i = Some (JStr ''love'')) pp)
       \<and> likeCount s = length (filter (\<lambda>p. map_of (answers p) i = Some (JStr ''like'')) pp)
       \<and> mehCount s = length (filter (\<lambda>p. map_of (answers p) i = Some (JStr ''meh'')) pp)
       \<and> nopeCount s = length (filter (\<lambda>p. map_of (answers p) i = Some (JStr ''nope'')) pp)
       \<and> unknownCount s
           = length (filter (\<lambda>p. map_of (answers p) i
                                   \<in> {Some (JStr ''unknown''), None, Some JNull, Some (JBool False),
                                      Some (JNum 0), Some (JStr [])}) pp)
       \<and> score s = 4 * int (loveCount s) + 2 * int (likeCount s) + 0 * int (mehCount s)
                   + 0 * int (unknownCount s) - 3 * int (nopeCount s)
       \<and> allLove s = (loveCount s = length pp)
       \<and> allPositive s = (loveCount s + likeCount s = length pp)
       \<and> noneNope s = (nopeCount s = 0)"
proof -
  let ?q = "scorePlace pp (places ! n)"
  have s: "s = boost (cuisineFrequency (scored places pp)) ?q"
    using assms(1,2) by (simp add: placeScores_nth)
  have id: "place_id s = i"
    by (simp add: s assms(3) boost_fields scorePlace_fields)
  have counts: "loveCount s = length (filter (\<lambda>p. map_of (answers p) i = Some (JStr ''love'')) pp)"
    "likeCount s = length (filter (\<lambda>p. map_of (answers p) i = Some (JStr ''like'')) pp)"
    "mehCount s = length (filter (\<lambda>p. map_of (answers p) i = Some (JStr ''meh'')) pp)"
    "nopeCount s = length (filter (\<lambda>p. map_of (answers p) i = Some (JStr ''nope'')) pp)"
    by (simp_all add: s assms(3) boost_fields scorePlace_fields tally_entries)
  have unknown: "unknownCount s
           = length (filter (\<lambda>p. map_of (answers p) i
                                   \<in> {Some (JStr ''unknown''), None, Some JNull, Some (JBool False),
                                      Some (JNum 0), Some (JStr [])}) pp)"
    by (simp add: s assms(3) boost_fields scorePlace_fields tally_unknown_entries)
  have derived: "score s = 4 * int (loveCount s) + 2 * int (likeCount s) - 3 * int (nopeCount s)"
    "allLove s = (loveCount s = length pp)"
    "allPositive s = (loveCount s + likeCount s = length pp)"
    "noneNope s = (nopeCount s = 0)"
    by (simp_all add: s boost_fields scorePlace_derived)
  show ?thesis using id counts unknown derived by simp
qed

text \<open>
  Witness for C2: one place and four ballots (love, like, nope, and one with an entry for
  another place only) give the tallies 1, 1, 0, 1, 1 and the score \<open>4 + 2 - 3 = 3\<close>.
\<close>

theorem C2_tallies_score_flags_witness:
  "(0::nat) < length [\<lparr>place_id = ''osm_1'', place_name = ''Luigi'', cuisine = None\<rparr>]
   \<and> (let s = placeScores [\<lparr>place_id = ''osm_1'', place_name = ''Luigi'', cuisine = None\<rparr>]
              [\<lparr>name = ''ann'', answers = [(''osm_1'', JStr ''love'')]\<rparr>,
               \<lparr>name = ''bob'', answers = [(''osm_1'', JStr ''like'')]\<rparr>,
               \<lparr>name = ''cy'', answers = [(''osm_1'', JStr ''nope'')]\<rparr>,
               \<lparr>name = ''dee'', answers = [(''osm_2'', JStr ''love'')]\<rparr>] ! 0
      in loveCount s = 1 \<and> likeCount s = 1 \<and> mehCount s = 0 \<and> unknownCount s = 1
       \<and> nopeCount s = 1 \<and> score s = 3 \<and> \<not> allLove s \<and> \<not> allPositive s \<and> \<not> noneNope s)"
  using C2_tallies_score_flags
    [of 0 "[\<lparr>place_id = ''osm_1'', place_name = ''Luigi'', cuisine = None\<rparr>]" _
        "[\<lparr>name = ''ann'', answers = [(''osm_1'', JStr ''love'')]\<rparr>,
          \<lparr>name = ''bob'', answers = [(''osm_1'', JStr ''like'')]\<rparr>,
          \<lparr>name = ''cy'', answers = [(''osm_1'', JStr ''nope'')]\<rparr>,
          \<lparr>name = ''dee'', answers = [(''osm_2'', JStr ''love'')]\<rparr>]", OF _ refl refl]
  by (simp add: Let_def)

text \<open>
  Claim C3 as stated fails when a candidate carries a tag twice. With the cuisine
  \<open>pizza;pizza\<close> and one ballot that loves the place, the loop of lines 459 to 461 adds
  the positive signal once per occurrence, so the table maps \<open>pizza\<close> to 2, while the
  sum over the candidates carrying the tag of their \<open>loveCount + likeCount\<close> is 1.
\<close>

theorem C3_counterexample:
  "\<not> (lookup0 (cuisineFrequency (scored
          [\<lparr>place_id = ''osm_1'', place_name = ''Luigi'', cuisine = Some ''pizza;pizza''\<rparr>]
          [\<lparr>name = ''ann'', answers = [(''osm_1'', JStr ''love'')]\<rparr>])) ''pizza''
      = (\<Sum>s\<leftarrow>filter (\<lambda>s. ''pizza'' \<in> set (tags s))
            (placeScores
               [\<lparr>place_id = ''osm_1'', place_name = ''Luigi'', cuisine = Some ''pizza;pizza''\<rparr>]
               [\<lparr>name = ''ann'', answers = [(''osm_1'', JStr ''love'')]\<rparr>]).
          int (loveCount s + likeCount s)))"
  by code_simp

text \<open>
  Claim C3, amended. The frequency table maps each tag to the sum, over all candidates,
  of the candidate's \<open>loveCount + likeCount\<close> times the number of occurrences of the tag
  in the candidate's tag list (the \<open>cuisine\<close> string split at \<open>;\<close>, trimmed and
  lower-cased); a tag that is not in the table counts as 0. When no candidate repeats a
  tag, this is the sum over the candidates carrying the tag, as the claim states. Every
  candidate gets \<open>boostedScore = score +\<close> the sum of the table entries over its tag list
  (an occurrence at a time), and a candidate without tags gets \<open>boostedScore = score\<close>.
\<close>

theorem C3_boost_amended:
  assumes "table = cuisineFrequency (scored places pp)"
    and "ps = placeScores places pp"
  shows "lookup0 table t
           = (\<Sum>s\<leftarrow>ps. int (count_list (tags s) t) * int (loveCount s + likeCount s))
       \<and> ((\<forall>s \<in> set ps. distinct (tags s)) \<longrightarrow>
            lookup0 table t
              = (\<Sum>s\<leftarrow>filter (\<lambda>s. t \<in> set (tags s)) ps. int (loveCount s + likeCount s)))
       \<and> (\<forall>s \<in> set ps. boostedScore s = score s + (\<Sum>c\<leftarrow>tags s. lookup0 table c))
       \<and> (\<forall>s \<in> set ps. tags s = [] \<longrightarrow> boostedScore s = score s)"
proof -
  have a: "lookup0 table t
           = (\<Sum>s\<leftarrow>ps. int (count_list (tags s) t) * int (loveCount s + likeCount s))"
    unfolding assms by (rule lookup0_cuisineFrequency_placeScores)
  have b: "lookup0 table t
              = (\<Sum>s\<leftarrow>filter (\<lambda>s. t \<in> set (tags s)) ps. int (loveCount s + likeCount s))"
    if "\<forall>s \<in> set ps. distinct (tags s)"
    unfolding a using that by (intro sum_list_count_distinct) simp
  have c: "boostedScore s = score s + (\<Sum>c\<leftarrow>tags s. lookup0 table c)" if mem: "s \<in> set ps" for s
  proof -
    obtain x where s: "s = boost table (scorePlace pp x)"
      using mem placeScores_mem [of s places pp] by (auto simp: assms)
    show ?thesis
    proof (cases "has_cuisine (scorePlace pp x)")
      case True
      then show ?thesis by (simp add: s boost_fields bonus_sum_list tags_boost)
    next
      case False
      then have "tags (scorePlace pp x) = []" by (rule tags_no_cuisine)
      with False show ?thesis by (simp add: s boost_fields tags_boost)
    qed
  qed
  have d: "boostedScore s = score s" if "s \<in> set ps" "tags s = []" for s
    using c [OF that(1)] that(2) by simp
  show ?thesis using a b c d by blast
qed

text \<open>
  Witness for C3 (scenario C of the specification, with a third, untagged place): the two
  places tagged \<open>italian\<close> have the ballots (love, like) and (meh, no entry), so the table
  maps \<open>italian\<close> to 2 and the boosted scores are \<open>6 + 2\<close>, \<open>0 + 2\<close> and, for the untagged
  place, its score 0.
\<close>

theorem C3_boost_amended_witness:
  "list_all (\<lambda>s. distinct (tags s)) (placeScores
     [\<lparr>place_id = ''osm_1'', place_name = ''Luigi'', cuisine = Some ''Italian''\<rparr>,
      \<lparr>place_id = ''osm_2'', place_name = ''Gino'', cuisine = Some ''pizza; italian''\<rparr>,
      \<lparr>place_id = ''osm_3'', place_name = ''Wok'', cuisine = None\<rparr>]
     [\<lparr>name = ''ann'', answers = [(''osm_1'', JStr ''love''), (''osm_2'', JStr ''meh'')]\<rparr>,
      \<lparr>name = ''bob'', answers = [(''osm_1'', JStr ''like'')]\<rparr>])
   \<and> lookup0 (cuisineFrequency (scored
     [\<lparr>place_id = ''osm_1'', place_name = ''Luigi'', cuisine = Some ''Italian''\<rparr>,
      \<lparr>place_id = ''osm_2'', place_name = ''Gino'', cuisine = Some ''pizza; italian''\<rparr>,
      \<lparr>place_id = ''osm_3'', place_name = ''Wok'', cuisine = None\<rparr>]
     [\<lparr>name = ''ann'', answers = [(''osm_1'', JStr ''love''), (''osm_2'', JStr ''meh'')]\<rparr>,
      \<lparr>name = ''bob'', answers = [(''osm_1'', JStr ''like'')]\<rparr>])) ''italian'' = 2
   \<and> map boostedScore (placeScores
     [\<lparr>place_id = ''osm_1'', place_name = ''Luigi'', cuisine = Some ''Italian''\<rparr>,
      \<lparr>place_id = ''osm_2'', place_name = ''Gino'', cuisine = Some ''pizza; italian''\<rparr>,
      \<lparr>place_id = ''osm_3'', place_name = ''Wok'', cuisine = None\<rparr>]
     [\<lparr>name = ''ann'', answers = [(''osm_1'', JStr ''love''), (''osm_2'', JStr ''meh'')]\<rparr>,
      \<lparr>name = ''bob'', answers = [(''osm_1'', JStr ''like'')]\<rparr>]) = [8, 2, 0]
   \<and> boostedScore (placeScores
     [\<lparr>place_id = ''osm_1'', place_name = ''Luigi'', cuisine = Some ''Italian''\<rparr>,
      \<lparr>place_id = ''osm_2'', place_name = ''Gino'', cuisine = Some ''pizza; italian''\<rparr>,
      \<lparr>place_id = ''osm_3'', place_name = ''Wok'', cuisine = None\<rparr>]
     [\<lparr>name = ''ann'', answers = [(''osm_1'', JStr ''love''), (''osm_2'', JStr ''meh'')]\<rparr>,
      \<lparr>name = ''bob'', answers = [(''osm_1'', JStr ''like'')]\<rparr>] ! 2)
     = score (placeScores
     [\<lparr>place_id = ''osm_1'', place_name = ''Luigi'', cuisine = Some ''Italian''\<rparr>,
      \<lparr>place_id = ''osm_2'', place_name = ''Gino'', cuisine = Some ''pizza; italian''\<rparr>,
      \<lparr>place_id = ''osm_3'', place_name = ''Wok'', cuisine = None\<rparr>]
     [\<lparr>name = ''ann'', answers = [(''osm_1'', JStr ''love''), (''osm_2'', JStr ''meh'')]\<rparr>,
      \<lparr>name = ''bob'', answers = [(''osm_1'', JStr ''like'')]\<rparr>] ! 2)"
proof -
  let ?ps = "placeScores
     [\<lparr>place_id = ''osm_1'', place_name = ''Luigi'', cuisine = Some ''Italian''\<rparr>,
      \<lparr>place_id = ''osm_2'', place_name = ''Gino'', cuisine = Some ''pizza; italian''\<rparr>,
      \<lparr>place_id = ''osm_3'', place_name = ''Wok'', cuisine = None\<rparr>]
     [\<lparr>name = ''ann'', answers = [(''osm_1'', JStr ''love''), (''osm_2'', JStr ''meh'')]\<rparr>,
      \<lparr>name = ''bob'', answers = [(''osm_1'', JStr ''like'')]\<rparr>]"
  let ?table = "cuisineFrequency (scored
     [\<lparr>place_id = ''osm_1'', place_name = ''Luigi'', cuisine = Some ''Italian''\<rparr>,
      \<lparr>place_id = ''osm_2'', place_name = ''Gino'', cuisine = Some ''pizza; italian''\<rparr>,
      \<lparr>place_id = ''osm_3'', place_name = ''Wok'', cuisine = None\<rparr>]
     [\<lparr>name = ''ann'', answers = [(''osm_1'', JStr ''love''), (''osm_2'', JStr ''meh'')]\<rparr>,
      \<lparr>name = ''bob'', answers = [(''osm_1'', JStr ''like'')]\<rparr>])"
  have d: "list_all (\<lambda>s. distinct (tags s)) ?ps" by code_simp
  then have d': "\<forall>s \<in> set ?ps. distinct (tags s)" by (simp only: list_all_iff)
  have f: "(\<Sum>s\<leftarrow>filter (\<lambda>s. ''italian'' \<in> set (tags s)) ?ps. int (loveCount s + likeCount s)) = 2"
    by code_simp
  have b: "map boostedScore ?ps = [8, 2, 0]" by code_simp
  have m: "?ps ! 2 \<in> set ?ps" by (simp add: length_placeScores)
  have t: "tags (?ps ! 2) = []" by code_simp
  note inst = C3_boost_amended [OF refl refl, where t = "''italian''"
     and places = "[\<lparr>place_id = ''osm_1'', place_name = ''Luigi'', cuisine = Some ''Italian''\<rparr>,
      \<lparr>place_id = ''osm_2'', place_name = ''Gino'', cuisine = Some ''pizza; italian''\<rparr>,
      \<lparr>place_id = ''osm_3'', place_name = ''Wok'', cuisine = None\<rparr>]"
     and pp = "[\<lparr>name = ''ann'', answers = [(''osm_1'', JStr ''love''), (''osm_2'', JStr ''meh'')]\<rparr>,
      \<lparr>name = ''bob'', answers = [(''osm_1'', JStr ''like'')]\<rparr>]"]
  have "lookup0 ?table ''italian'' = 2" using inst d' f by simp
  moreover have "boostedScore (?ps ! 2) = score (?ps ! 2)" using inst m t by blast
  ultimately show ?thesis using d b by simp
qed

text \<open>
  Claim C4 as stated fails. With one place and two ballots (like, nope) the score is
  \<open>2 - 3 = -1\<close>, so the three primary tiers are empty and the place is the only
  fallback pick; its nope tally (1) does not exceed love plus like (1), so the flag is
  false, although the first disjunct of the claim holds.
\<close>

theorem C4_counterexample:
  "\<not> (needs_ai_fallback (aggregate [\<lparr>place_id = ''osm_1'', place_name = ''Luigi'', cuisine = None\<rparr>]
          [\<lparr>name = ''ann'', answers = [(''osm_1'', JStr ''like'')]\<rparr>,
           \<lparr>name = ''bob'', answers = [(''osm_1'', JStr ''nope'')]\<rparr>])
       \<longleftrightarrow>
        (shared_favorites (aggregate [\<lparr>place_id = ''osm_1'', place_name = ''Luigi'', cuisine = None\<rparr>]
          [\<lparr>name = ''ann'', answers = [(''osm_1'', JStr ''like'')]\<rparr>,
           \<lparr>name = ''bob'', answers = [(''osm_1'', JStr ''nope'')]\<rparr>]) = []
         \<and> places_to_try (aggregate [\<lparr>place_id = ''osm_1'', place_name = ''Luigi'', cuisine = None\<rparr>]
          [\<lparr>name = ''ann'', answers = [(''osm_1'', JStr ''like'')]\<rparr>,
           \<lparr>name = ''bob'', answers = [(''osm_1'', JStr ''nope'')]\<rparr>]) = []
         \<and> best_bets (aggregate [\<lparr>place_id = ''osm_1'', place_name = ''Luigi'', cuisine = None\<rparr>]
          [\<lparr>name = ''ann'', answers = [(''osm_1'', JStr ''like'')]\<rparr>,
           \<lparr>name = ''bob'', answers = [(''osm_1'', JStr ''nope'')]\<rparr>]) = [])
        \<or> list_all (\<lambda>p. nopeCount p > loveCount p + likeCount p)
             (fallback_picks (aggregate [\<lparr>place_id = ''osm_1'', place_name = ''Luigi'', cuisine = None\<rparr>]
          [\<lparr>name = ''ann'', answers = [(''osm_1'', JStr ''like'')]\<rparr>,
           \<lparr>name = ''bob'', answers = [(''osm_1'', JStr ''nope'')]\<rparr>])))"
  by code_simp

text \<open>
  Claim C4, amended. \<open>needsExternalFallback\<close> is true if and only if all three primary
  tiers are empty and every member of the fallback-picks tier has
  \<open>nopeCount > loveCount + likeCount\<close>: a conjunction, not a disjunction. Put
  differently: all four tiers are empty, or the primary tiers are empty and the fallback
  tier is populated with net-negative members only.
\<close>

theorem C4_needs_fallback_amended:
  assumes "r = aggregate places pp"
  shows "(needs_ai_fallback r \<longleftrightarrow>
            shared_favorites r = [] \<and> places_to_try r = [] \<and> best_bets r = []
            \<and> (\<forall>p\<in>set (fallback_picks r). nopeCount p > loveCount p + likeCount p))
       \<and> (needs_ai_fallback r \<longleftrightarrow>
            shared_favorites r = [] \<and> places_to_try r = [] \<and> best_bets r = []
            \<and> (fallback_picks r = []
                \<or> fallback_picks r \<noteq> []
                  \<and> (\<forall>p\<in>set (fallback_picks r). nopeCount p > loveCount p + likeCount p)))"
proof -
  have "needs_ai_fallback r \<longleftrightarrow>
            shared_favorites r = [] \<and> places_to_try r = [] \<and> best_bets r = []
            \<and> (\<forall>p\<in>set (fallback_picks r). nopeCount p > loveCount p + likeCount p)"
    by (simp add: assms aggregate_fields needsAiFallback_def take10_Nil list_all_iff)
  then show ?thesis by auto
qed

text \<open>
  Witness for C4 (scenario B of the specification): one place, ballots love, nope, nope.
  The score is \<open>4 - 6 = -2\<close>, the place is the only fallback pick and
  \<open>nopeCount = 2 > 1\<close>, so the flag is true.
\<close>

theorem C4_needs_fallback_amended_witness:
  "needs_ai_fallback (aggregate [\<lparr>place_id = ''osm_1'', place_name = ''Luigi'', cuisine = None\<rparr>]
          [\<lparr>name = ''ann'', answers = [(''osm_1'', JStr ''love'')]\<rparr>,
           \<lparr>name = ''bob'', answers = [(''osm_1'', JStr ''nope'')]\<rparr>,
           \<lparr>name = ''cy'', answers = [(''osm_1'', JStr ''nope'')]\<rparr>])
   \<and> map place_id (fallback_picks (aggregate [\<lparr>place_id = ''osm_1'', place_name = ''Luigi'', cuisine = None\<rparr>]
          [\<lparr>name = ''ann'', answers = [(''osm_1'', JStr ''love'')]\<rparr>,
           \<lparr>name = ''bob'', answers = [(''osm_1'', JStr ''nope'')]\<rparr>,
           \<lparr>name = ''cy'', answers = [(''osm_1'', JStr ''nope'')]\<rparr>])) = [''osm_1'']"
proof -
  let ?r = "aggregate [\<lparr>place_id = ''osm_1'', place_name = ''Luigi'', cuisine = None\<rparr>]
          [\<lparr>name = ''ann'', answers = [(''osm_1'', JStr ''love'')]\<rparr>,
           \<lparr>name = ''bob'', answers = [(''osm_1'', JStr ''nope'')]\<rparr>,
           \<lparr>name = ''cy'', answers = [(''osm_1'', JStr ''nope'')]\<rparr>]"
  have tiers: "shared_favorites ?r = []" "places_to_try ?r = []" "best_bets ?r = []"
    by code_simp+
  have ids: "map place_id (fallback_picks ?r) = [''osm_1'']"
    by code_simp
  have "list_all (\<lambda>p. nopeCount p > loveCount p + likeCount p) (fallback_picks ?r)"
    by code_simp
  then have "\<forall>p\<in>set (fallback_picks ?r). nopeCount p > loveCount p + likeCount p"
    by (simp add: list_all_iff)
  then show ?thesis
    using C4_needs_fallback_amended [OF refl, of "[\<lparr>place_id = ''osm_1'', place_name = ''Luigi'', cuisine = None\<rparr>]"
          "[\<lparr>name = ''ann'', answers = [(''osm_1'', JStr ''love'')]\<rparr>,
           \<lparr>name = ''bob'', answers = [(''osm_1'', JStr ''nope'')]\<rparr>,
           \<lparr>name = ''cy'', answers = [(''osm_1'', JStr ''nope'')]\<rparr>]"] tiers ids
    by blast
qed

text \<open>
  Claim C5. When the candidate ids are pairwise distinct, the four tiers of the result
  are pairwise disjoint by candidate id; indeed no id occurs twice in the four tiers
  taken together.
\<close>

theorem C5_partition:
  assumes "distinct (map place_id places)"
    and "r = aggregate places pp"
  shows "distinct (map place_id
           (shared_favorites r @ places_to_try r @ best_bets r @ fallback_picks r))
       \<and> place_id ` set (shared_favorites r) \<inter> place_id ` set (places_to_try r) = {}
       \<and> place_id ` set (shared_favorites r) \<inter> place_id ` set (best_bets r) = {}
       \<and> place_id ` set (shared_favorites r) \<inter> place_id ` set (fallback_picks r) = {}
       \<and> place_id ` set (places_to_try r) \<inter> place_id ` set (best_bets r) = {}
       \<and> place_id ` set (places_to_try r) \<inter> place_id ` set (fallback_picks r) = {}
       \<and> place_id ` set (best_bets r) \<inter> place_id ` set (fallback_picks r) = {}"
proof -
  define ps where "ps = placeScores places pp"
  have d: "distinct (map place_id ps)"
    using assms(1) by (simp add: ps_def map_place_id_placeScores)
  have r: "shared_favorites r = take 10 (sharedFavorites ps)"
    "places_to_try r = take 10 (placesToTry ps)"
    "best_bets r = bestBets ps" "fallback_picks r = fallbackPicks ps"
    by (simp_all add: assms(2) aggregate_fields ps_def)
  have d1: "distinct (map place_id (shared_favorites r))"
    unfolding r sharedFavorites_def
    by (intro distinct_ids_take distinct_ids_sort_filter d)
  have d2: "distinct (map place_id (places_to_try r))"
    unfolding r placesToTry_def
    by (intro distinct_ids_take distinct_ids_sort_filter d)
  have d3: "distinct (map place_id (best_bets r))"
    unfolding r bestBets_def
    by (intro distinct_ids_take distinct_ids_sort_filter d)
  have d4: "distinct (map place_id (fallback_picks r))"
    unfolding r fallbackPicks_def
    using distinct_ids_take [OF distinct_ids_sort [OF d], of 3 leastHated] by simp
  have s12: "place_id ` set (shared_favorites r) \<inter> place_id ` set (places_to_try r) = {}"
    unfolding r
    by (rule disjoint_mono [OF tiers_disjoint_ids(1) [OF ps_def] take_image_subset take_image_subset])
  have s13: "place_id ` set (shared_favorites r) \<inter> place_id ` set (best_bets r) = {}"
    unfolding r
    by (rule disjoint_mono [OF tiers_disjoint_ids(2) [OF ps_def] take_image_subset subset_refl])
  have s23: "place_id ` set (places_to_try r) \<inter> place_id ` set (best_bets r) = {}"
    unfolding r
    by (rule disjoint_mono [OF tiers_disjoint_ids(3) [OF ps_def] take_image_subset subset_refl])
  have f: "fallback_picks r \<noteq> [] \<Longrightarrow>
             shared_favorites r = [] \<and> places_to_try r = [] \<and> best_bets r = []"
    unfolding r by (simp add: fallbackPicks_def split: if_splits)
  have s14: "place_id ` set (shared_favorites r) \<inter> place_id ` set (fallback_picks r) = {}"
  proof (cases "fallback_picks r = []")
    case True then show ?thesis by simp
  next
    case False then show ?thesis using f by simp
  qed
  have s24: "place_id ` set (places_to_try r) \<inter> place_id ` set (fallback_picks r) = {}"
  proof (cases "fallback_picks r = []")
    case True then show ?thesis by simp
  next
    case False then show ?thesis using f by simp
  qed
  have s34: "place_id ` set (best_bets r) \<inter> place_id ` set (fallback_picks r) = {}"
  proof (cases "fallback_picks r = []")
    case True then show ?thesis by simp
  next
    case False then show ?thesis using f by simp
  qed
  have i34: "set (map place_id (best_bets r)) \<inter> set (map place_id (fallback_picks r)) = {}"
    using s34 by simp
  have c34: "distinct (map place_id (best_bets r @ fallback_picks r))"
    using d3 d4 i34 by (simp only: map_append distinct_append simp_thms)
  have i2: "set (map place_id (places_to_try r))
              \<inter> set (map place_id (best_bets r @ fallback_picks r)) = {}"
    using s23 s24 by (simp add: Int_Un_distrib)
  have c234: "distinct (map place_id (places_to_try r @ best_bets r @ fallback_picks r))"
    using d2 c34 i2 by (simp only: map_append distinct_append simp_thms)
  have i1: "set (map place_id (shared_favorites r))
              \<inter> set (map place_id (places_to_try r @ best_bets r @ fallback_picks r)) = {}"
    using s12 s13 s14 by (simp add: Int_Un_distrib)
  have "distinct (map place_id
           (shared_favorites r @ places_to_try r @ best_bets r @ fallback_picks r))"
    using d1 c234 i1 by (simp only: map_append distinct_append simp_thms)
  then show ?thesis using s12 s13 s14 s23 s24 s34 by simp
qed

text \<open>
  Witness for C5: three places with distinct ids and two ballots; the tiers hold
  \<open>osm_1\<close>, \<open>osm_2\<close> and \<open>osm_3\<close>, one each.
\<close>

theorem C5_partition_witness:
  "distinct (map place_id
     [\<lparr>place_id = ''osm_1'', place_name = ''Luigi'', cuisine = None\<rparr>,
      \<lparr>place_id = ''osm_2'', place_name = ''Wok'', cuisine = None\<rparr>,
      \<lparr>place_id = ''osm_3'', place_name = ''Taco'', cuisine = None\<rparr>])
   \<and> map place_id (shared_favorites (aggregate
     [\<lparr>place_id = ''osm_1'', place_name = ''Luigi'', cuisine = None\<rparr>,
      \<lparr>place_id = ''osm_2'', place_name = ''Wok'', cuisine = None\<rparr>,
      \<lparr>place_id = ''osm_3'', place_name = ''Taco'', cuisine = None\<rparr>]
     [\<lparr>name = ''ann'', answers = [(''osm_1'', JStr ''love''), (''osm_2'', JStr ''meh''), (''osm_3'', JStr ''love'')]\<rparr>,
      \<lparr>name = ''bob'', answers = [(''osm_1'', JStr ''like''), (''osm_3'', JStr ''nope'')]\<rparr>])
        @ places_to_try (aggregate
     [\<lparr>place_id = ''osm_1'', place_name = ''Luigi'', cuisine = None\<rparr>,
      \<lparr>place_id = ''osm_2'', place_name = ''Wok'', cuisine = None\<rparr>,
      \<lparr>place_id = ''osm_3'', place_name = ''Taco'', cuisine = None\<rparr>]
     [\<lparr>name = ''ann'', answers = [(''osm_1'', JStr ''love''), (''osm_2'', JStr ''meh''), (''osm_3'', JStr ''love'')]\<rparr>,
      \<lparr>name = ''bob'', answers = [(''osm_1'', JStr ''like''), (''osm_3'', JStr ''nope'')]\<rparr>])
        @ best_bets (aggregate
     [\<lparr>place_id = ''osm_1'', place_name = ''Luigi'', cuisine = None\<rparr>,
      \<lparr>place_id = ''osm_2'', place_name = ''Wok'', cuisine = None\<rparr>,
      \<lparr>place_id = ''osm_3'', place_name = ''Taco'', cuisine = None\<rparr>]
     [\<lparr>name = ''ann'', answers = [(''osm_1'', JStr ''love''), (''osm_2'', JStr ''meh''), (''osm_3'', JStr ''love'')]\<rparr>,
      \<lparr>name = ''bob'', answers = [(''osm_1'', JStr ''like''), (''osm_3'', JStr ''nope'')]\<rparr>])
        @ fallback_picks (aggregate
     [\<lparr>place_id = ''osm_1'', place_name = ''Luigi'', cuisine = None\<rparr>,
      \<lparr>place_id = ''osm_2'', place_name = ''Wok'', cuisine = None\<rparr>,
      \<lparr>place_id = ''osm_3'', place_name = ''Taco'', cuisine = None\<rparr>]
     [\<lparr>name = ''ann'', answers = [(''osm_1'', JStr ''love''), (''osm_2'', JStr ''meh''), (''osm_3'', JStr ''love'')]\<rparr>,
      \<lparr>name = ''bob'', answers = [(''osm_1'', JStr ''like''), (''osm_3'', JStr ''nope'')]\<rparr>]))
     = [''osm_1'', ''osm_2'', ''osm_3'']
   \<and> distinct (map place_id (shared_favorites (aggregate
     [\<lparr>place_id = ''osm_1'', place_name = ''Luigi'', cuisine = None\<rparr>,
      \<lparr>place_id = ''osm_2'', place_name = ''Wok'', cuisine = None\<rparr>,
      \<lparr>place_id = ''osm_3'', place_name = ''Taco'', cuisine = None\<rparr>]
     [\<lparr>name = ''ann'', answers = [(''osm_1'', JStr ''love''), (''osm_2'', JStr ''meh''), (''osm_3'', JStr ''love'')]\<rparr>,
      \<lparr>name = ''bob'', answers = [(''osm_1'', JStr ''like''), (''osm_3'', JStr ''nope'')]\<rparr>])
        @ places_to_try (aggregate
     [\<lparr>place_id = ''osm_1'', place_name = ''Luigi'', cuisine = None\<rparr>,
      \<lparr>place_id = ''osm_2'', place_name = ''Wok'', cuisine = None\<rparr>,
      \<lparr>place_id = ''osm_3'', place_name = ''Taco'', cuisine = None\<rparr>]
     [\<lparr>name = ''ann'', answers = [(''osm_1'', JStr ''love''), (''osm_2'', JStr ''meh''), (''osm_3'', JStr ''love'')]\<rparr>,
      \<lparr>name = ''bob'', answers = [(''osm_1'', JStr ''like''), (''osm_3'', JStr ''nope'')]\<rparr>])
        @ best_bets (aggregate
     [\<lparr>place_id = ''osm_1'', place_name = ''Luigi'', cuisine = None\<rparr>,
      \<lparr>place_id = ''osm_2'', place_name = ''Wok'', cuisine = None\<rparr>,
      \<lparr>place_id = ''osm_3'', place_name = ''Taco'', cuisine = None\<rparr>]
     [\<lparr>name = ''ann'', answers = [(''osm_1'', JStr ''love''), (''osm_2'', JStr ''meh''), (''osm_3'', JStr ''love'')]\<rparr>,
      \<lparr>name = ''bob'', answers = [(''osm_1'', JStr ''like''), (''osm_3'', JStr ''nope'')]\<rparr>])
        @ fallback_picks (aggregate
     [\<lparr>place_id = ''osm_1'', place_name = ''Luigi'', cuisine = None\<rparr>,
      \<lparr>place_id = ''osm_2'', place_name = ''Wok'', cuisine = None\<rparr>,
      \<lparr>place_id = ''osm_3'', place_name = ''Taco'', cuisine = None\<rparr>]
     [\<lparr>name = ''ann'', answers = [(''osm_1'', JStr ''love''), (''osm_2'', JStr ''meh''), (''osm_3'', JStr ''love'')]\<rparr>,
      \<lparr>name = ''bob'', answers = [(''osm_1'', JStr ''like''), (''osm_3'', JStr ''nope'')]\<rparr>])))"
proof -
  have h: "distinct (map place_id
     [\<lparr>place_id = ''osm_1'', place_name = ''Luigi'', cuisine = None\<rparr>,
      \<lparr>place_id = ''osm_2'', place_name = ''Wok'', cuisine = None\<rparr>,
      \<lparr>place_id = ''osm_3'', place_name = ''Taco'', cuisine = None\<rparr>])"
    by simp
  have ids: "map place_id (shared_favorites (aggregate
     [\<lparr>place_id = ''osm_1'', place_name = ''Luigi'', cuisine = None\<rparr>,
      \<lparr>place_id = ''osm_2'', place_name = ''Wok'', cuisine = None\<rparr>,
      \<lparr>place_id = ''osm_3'', place_name = ''Taco'', cuisine = None\<rparr>]
     [\<lparr>name = ''ann'', answers = [(''osm_1'', JStr ''love''), (''osm_2'', JStr ''meh''), (''osm_3'', JStr ''love'')]\<rparr>,
      \<lparr>name = ''bob'', answers = [(''osm_1'', JStr ''like''), (''osm_3'', JStr ''nope'')]\<rparr>])
        @ places_to_try (aggregate
     [\<lparr>place_id = ''osm_1'', place_name = ''Luigi'', cuisine = None\<rparr>,
      \<lparr>place_id = ''osm_2'', place_name = ''Wok'', cuisine = None\<rparr>,
      \<lparr>place_id = ''osm_3'', place_name = ''Taco'', cuisine = None\<rparr>]
     [\<lparr>name = ''ann'', answers = [(''osm_1'', JStr ''love''), (''osm_2'', JStr ''meh''), (''osm_3'', JStr ''love'')]\<rparr>,
      \<lparr>name = ''bob'', answers = [(''osm_1'', JStr ''like''), (''osm_3'', JStr ''nope'')]\<rparr>])
        @ best_bets (aggregate
     [\<lparr>place_id = ''osm_1'', place_name = ''Luigi'', cuisine = None\<rparr>,
      \<lparr>place_id = ''osm_2'', place_name = ''Wok'', cuisine = None\<rparr>,
      \<lparr>place_id = ''osm_3'', place_name = ''Taco'', cuisine = None\<rparr>]
     [\<lparr>name = ''ann'', answers = [(''osm_1'', JStr ''love''), (''osm_2'', JStr ''meh''), (''osm_3'', JStr ''love'')]\<rparr>,
      \<lparr>name = ''bob'', answers = [(''osm_1'', JStr ''like''), (''osm_3'', JStr ''nope'')]\<rparr>])
        @ fallback_picks (aggregate
     [\<lparr>place_id = ''osm_1'', place_name = ''Luigi'', cuisine = None\<rparr>,
      \<lparr>place_id = ''osm_2'', place_name = ''Wok'', cuisine = None\<rparr>,
      \<lparr>place_id = ''osm_3'', place_name = ''Taco'', cuisine = None\<rparr>]
     [\<lparr>name = ''ann'', answers = [(''osm_1'', JStr ''love''), (''osm_2'', JStr ''meh''), (''osm_3'', JStr ''love'')]\<rparr>,
      \<lparr>name = ''bob'', answers = [(''osm_1'', JStr ''like''), (''osm_3'', JStr ''nope'')]\<rparr>]))
     = [''osm_1'', ''osm_2'', ''osm_3'']"
    by code_simp
  show ?thesis
    using h ids C5_partition [OF h refl, of
      "[\<lparr>name = ''ann'', answers = [(''osm_1'', JStr ''love''), (''osm_2'', JStr ''meh''), (''osm_3'', JStr ''love'')]\<rparr>,
      \<lparr>name = ''bob'', answers = [(''osm_1'', JStr ''like''), (''osm_3'', JStr ''nope'')]\<rparr>]"]
    by simp
qed

text \<open>
  Claim C6 as stated fails for zero participants: with one place and no ballot the place
  has all tallies zero, so it is in none of the primary tiers, the fallback tier picks
  it, and the flag is false because \<open>0 > 0\<close> is.
\<close>

theorem C6_counterexample:
  "\<not> (shared_favorites (aggregate [\<lparr>place_id = ''osm_1'', place_name = ''Luigi'', cuisine = None\<rparr>] []) = []
      \<and> places_to_try (aggregate [\<lparr>place_id = ''osm_1'', place_name = ''Luigi'', cuisine = None\<rparr>] []) = []
      \<and> best_bets (aggregate [\<lparr>place_id = ''osm_1'', place_name = ''Luigi'', cuisine = None\<rparr>] []) = []
      \<and> fallback_picks (aggregate [\<lparr>place_id = ''osm_1'', place_name = ''Luigi'', cuisine = None\<rparr>] []) = []
      \<and> needs_ai_fallback (aggregate [\<lparr>place_id = ''osm_1'', place_name = ''Luigi'', cuisine = None\<rparr>] []))"
  by code_simp

text \<open>
  Claim C6, amended. With zero candidates, whatever the ballots (as long as they parsed
  to objects), nothing is raised, all four tiers are empty, \<open>needsExternalFallback\<close> is
  true and the summary is the \<open>no overlap found\<close> message. With zero participants
  nothing is raised and the three primary tiers are empty, but the fallback tier holds
  the first three candidates in the order of the candidate list, the flag is true only
  if there is no candidate either, and with at least one candidate the summary is the
  \<open>least controversial picks\<close> message.
\<close>

theorem C6_empty_inputs_amended:
  "computeLocalsResults [] (map (\<lambda>p. \<lparr>name = name p, answers = JsonObject (answers p)\<rparr>) pp)
     = Inr (aggregate [] pp)
   \<and> shared_favorites (aggregate [] pp) = [] \<and> places_to_try (aggregate [] pp) = []
   \<and> best_bets (aggregate [] pp) = [] \<and> fallback_picks (aggregate [] pp) = []
   \<and> needs_ai_fallback (aggregate [] pp)
   \<and> group_summary (aggregate [] pp)
       = ''no overlap found. try expanding your search radius or picking a different category.''
   \<and> computeLocalsResults places [] = Inr (aggregate places [])
   \<and> shared_favorites (aggregate places []) = [] \<and> places_to_try (aggregate places []) = []
   \<and> best_bets (aggregate places []) = []
   \<and> fallback_picks (aggregate places []) = take 3 (placeScores places [])
   \<and> map place_id (fallback_picks (aggregate places [])) = take 3 (map place_id places)
   \<and> needs_ai_fallback (aggregate places []) = (places = [])
   \<and> group_summary (aggregate places [])
       = (if places = []
          then ''no overlap found. try expanding your search radius or picking a different category.''
          else ''wildly different taste - here are the least controversial picks.'')"
proof -
  have a: "computeLocalsResults [] (map (\<lambda>p. \<lparr>name = name p, answers = JsonObject (answers p)\<rparr>) pp)
     = Inr (aggregate [] pp)"
    by (rule computeLocalsResults_objects)
  have b: "shared_favorites (aggregate [] pp) = []" "places_to_try (aggregate [] pp) = []"
    "best_bets (aggregate [] pp) = []" "fallback_picks (aggregate [] pp) = []"
    by (simp_all add: aggregate_fields placeScores_Nil tiers_no_places)
  have c: "needs_ai_fallback (aggregate [] pp)"
    by (simp add: aggregate_fields placeScores_Nil tiers_no_places needsAiFallback_def)
  have d: "group_summary (aggregate [] pp)
       = ''no overlap found. try expanding your search radius or picking a different category.''"
    by (simp add: aggregate_fields placeScores_Nil tiers_no_places groupSummary_def)
  have e: "computeLocalsResults places [] = Inr (aggregate places [])"
    by (simp add: computeLocalsResults_def)
  have f: "shared_favorites (aggregate places []) = []" "places_to_try (aggregate places []) = []"
    "best_bets (aggregate places []) = []"
    by (simp_all add: aggregate_fields tiers_no_participants)
  have g: "fallback_picks (aggregate places []) = take 3 (placeScores places [])"
    by (simp add: aggregate_fields fallback_no_participants)
  have h: "map place_id (fallback_picks (aggregate places [])) = take 3 (map place_id places)"
    by (simp add: g map_place_id_placeScores flip: take_map)
  have len: "length (placeScores places []) = length places" by (rule length_placeScores)
  have "list_all (\<lambda>p. nopeCount p > loveCount p + likeCount p) (take 3 (placeScores places []))
          = (places = [])"
  proof (cases "placeScores places []")
    case Nil
    then show ?thesis using len by simp
  next
    case (Cons s ss)
    then have "s \<in> set (placeScores places [])" by simp
    then have "nopeCount s = 0" by (rule placeScores_no_participants)
    then show ?thesis using Cons len by auto
  qed
  then have i: "needs_ai_fallback (aggregate places []) = (places = [])"
    by (simp add: aggregate_fields tiers_no_participants fallback_no_participants needsAiFallback_def)
  have "cuisineFrequency (scored places []) = []"
    by (rule cuisineFrequency_none) (simp add: positiveSignal_def scored_no_participants)
  then have top: "topGroupCuisines (cuisineFrequency (scored places [])) = []"
    by (simp add: topGroupCuisines_def sort_by_Nil)
  have "(take 3 (placeScores places []) = []) = (places = [])"
    using len by (cases "placeScores places []") auto
  then have j: "group_summary (aggregate places [])
       = (if places = []
          then ''no overlap found. try expanding your search radius or picking a different category.''
          else ''wildly different taste - here are the least controversial picks.'')"
    by (simp add: aggregate_fields tiers_no_participants fallback_no_participants top groupSummary_def)
  show ?thesis
    using a b c d e f g h i j by simp
qed

text \<open>
  Claim C7 as stated fails: with one place, the ballot \<open>{}\<close> and the ballot
  \<open>{osm_1: 'unknown'}\<close> give different results, because \<open>wantToTryPlaces\<close> is built
  from the entries that are explicitly \<open>unknown\<close> (lines 515 to 518).
\<close>

theorem C7_counterexample:
  "\<not> (aggregate [\<lparr>place_id = ''osm_1'', place_name = ''Luigi'', cuisine = None\<rparr>]
          [\<lparr>name = ''ann'', answers = [(''osm_1'', JStr ''unknown'')]\<rparr>]
      = aggregate [\<lparr>place_id = ''osm_1'', place_name = ''Luigi'', cuisine = None\<rparr>]
          [\<lparr>name = ''ann'', answers = []\<rparr>])"
  by code_simp

text \<open>
  Claim C7, amended. Let no candidate id name a member of \<open>Object.prototype\<close> (the ids
  are the provider's \<open>osm_\<close> strings), let a ballot have no entry for the id \<open>i\<close>, and
  replace it by the same ballot with the entry \<open>i: 'unknown'\<close> added at any position. Then
  every scored place is the same, and so is every field of the result (tiers, summary,
  cuisine overlap, fallback flag) except \<open>individual_profiles\<close>. There only the profile of
  that participant changes, and only in \<open>wantToTryPlaces\<close> and \<open>totalTry\<close>: when \<open>i\<close> is
  the id of a candidate, that candidate is added to \<open>wantToTryPlaces\<close> at the position of
  the new entry and \<open>totalTry\<close> grows by one. For an id that is not a candidate's the
  profile is unchanged as well, unless the id names a member that \<open>placeMap\<close> inherits
  from \<open>Object.prototype\<close>: then that member is added in the same way.
\<close>

theorem C7_missing_vs_unknown_amended:
  assumes "i \<notin> fst ` set (es1 @ es2)"
    and "p = \<lparr>name = n, answers = es1 @ es2\<rparr>"
    and "p' = \<lparr>name = n, answers = es1 @ (i, JStr ''unknown'') # es2\<rparr>"
    and "m = placeMap places"
    and "place_id ` set places \<inter> set objectPrototype = {}"
  shows "placeScores places (xs @ p' # ys) = placeScores places (xs @ p # ys)
       \<and> aggregate places (xs @ p' # ys)
           = (aggregate places (xs @ p # ys))
               \<lparr>individual_profiles := individualProfiles places (xs @ p' # ys)\<rparr>
       \<and> individualProfiles places (xs @ p # ys)
           = individualProfiles places xs @ individualProfile m p # individualProfiles places ys
       \<and> individualProfiles places (xs @ p' # ys)
           = individualProfiles places xs @ individualProfile m p' # individualProfiles places ys
       \<and> individualProfile m p'
           = (individualProfile m p)
               \<lparr>wantToTryPlaces :=
                  picked ''unknown'' m es1 @ (case m i of None \<Rightarrow> [] | Some q \<Rightarrow> [q])
                  @ picked ''unknown'' m es2,
                totalTry := totalTry (individualProfile m p)
                            + (if i \<in> place_id ` set places \<union> set objectPrototype
                               then 1 else 0)\<rparr>
       \<and> wantToTryPlaces (individualProfile m p)
           = picked ''unknown'' m es1 @ picked ''unknown'' m es2
       \<and> (i \<in> place_id ` set places \<longrightarrow>
            (\<exists>q \<in> set places. place_id q = i \<and> m i = Some (Candidate q)))
       \<and> (i \<notin> place_id ` set places \<and> i \<in> set objectPrototype \<longrightarrow>
            m i = Some (Inherited i))
       \<and> (i \<notin> place_id ` set places \<union> set objectPrototype \<longrightarrow>
            individualProfile m p' = individualProfile m p)"
proof -
  have sc: "scored places (xs @ p' # ys) = scored places (xs @ p # ys)"
    unfolding assms(2,3) by (rule scored_insert_unknown [OF assms(1)])
  then have ps: "placeScores places (xs @ p' # ys) = placeScores places (xs @ p # ys)"
    by (simp add: placeScores_def)
  have agg: "aggregate places (xs @ p' # ys)
           = (aggregate places (xs @ p # ys))
               \<lparr>individual_profiles := individualProfiles places (xs @ p' # ys)\<rparr>"
    by (simp add: aggregate_def Let_def sc)
  have ip: "individualProfiles places (xs @ q # ys)
           = individualProfiles places xs @ individualProfile m q # individualProfiles places ys" for q
    by (simp add: individualProfiles_def assms(4))
  have none: "(m i = None) = (i \<notin> place_id ` set places \<union> set objectPrototype)"
    unfolding assms(4) by (rule placeMap_None)
  have love: "picked ''love'' m (es1 @ (i, JStr ''unknown'') # es2) = picked ''love'' m (es1 @ es2)"
    and like: "picked ''like'' m (es1 @ (i, JStr ''unknown'') # es2) = picked ''like'' m (es1 @ es2)"
    by (simp_all add: picked_append picked_Cons)
  have wt': "picked ''unknown'' m (es1 @ (i, JStr ''unknown'') # es2)
           = picked ''unknown'' m es1 @ (case m i of None \<Rightarrow> [] | Some q \<Rightarrow> [q])
             @ picked ''unknown'' m es2"
    and wt: "picked ''unknown'' m (es1 @ es2) = picked ''unknown'' m es1 @ picked ''unknown'' m es2"
    by (simp_all add: picked_append picked_Cons)
  have lenc: "length (case m i of None \<Rightarrow> [] | Some q \<Rightarrow> [q])
            = (if i \<in> place_id ` set places \<union> set objectPrototype then 1 else 0)"
    using none by (cases "m i") auto
  have prof: "individualProfile m p'
           = (individualProfile m p)
               \<lparr>wantToTryPlaces :=
                  picked ''unknown'' m es1 @ (case m i of None \<Rightarrow> [] | Some q \<Rightarrow> [q])
                  @ picked ''unknown'' m es2,
                totalTry := totalTry (individualProfile m p)
                            + (if i \<in> place_id ` set places \<union> set objectPrototype
                               then 1 else 0)\<rparr>"
    by (simp add: individualProfile_def Let_def assms(2,3) love like wt' wt lenc)
  have want: "wantToTryPlaces (individualProfile m p)
           = picked ''unknown'' m es1 @ picked ''unknown'' m es2"
    by (simp add: individualProfile_def Let_def assms(2) wt)
  have cand: "\<exists>q \<in> set places. place_id q = i \<and> m i = Some (Candidate q)"
    if mem: "i \<in> place_id ` set places"
    unfolding assms(4) using mem by (rule placeMap_candidate)
  have inh: "m i = Some (Inherited i)"
    if "i \<notin> place_id ` set places \<and> i \<in> set objectPrototype"
    using that by (simp add: assms(4) placeMap_other)
  have same: "individualProfile m p' = individualProfile m p"
    if nk: "i \<notin> place_id ` set places \<union> set objectPrototype"
  proof -
    have "m i = None" using none nk by simp
    then have "picked ''unknown'' m (es1 @ (i, JStr ''unknown'') # es2)
             = picked ''unknown'' m (es1 @ es2)"
      by (simp add: wt' wt)
    then show ?thesis
      by (simp add: individualProfile_def Let_def assms(2,3) love like)
  qed
  show ?thesis using ps agg ip prof want cand inh same by blast
qed

text \<open>
  Witness for C7: two places, two ballots; the first ballot has no entry for \<open>osm_1\<close>
  and gets one, which adds one to \<open>totalTry\<close>. So does an entry for \<open>toString\<close>, which
  is no candidate's id but a member that \<open>placeMap\<close> inherits.
\<close>

theorem C7_missing_vs_unknown_amended_witness:
  "''osm_1'' \<notin> fst ` set ([(''osm_2'', JStr ''love'')] @ [])
   \<and> place_id ` set [\<lparr>place_id = ''osm_1'', place_name = ''Luigi'', cuisine = None\<rparr>,
                      \<lparr>place_id = ''osm_2'', place_name = ''Wok'', cuisine = None\<rparr>]
       \<inter> set objectPrototype = {}
   \<and> placeScores [\<lparr>place_id = ''osm_1'', place_name = ''Luigi'', cuisine = None\<rparr>,
                   \<lparr>place_id = ''osm_2'', place_name = ''Wok'', cuisine = None\<rparr>]
        ([] @ \<lparr>name = ''ann'', answers = [(''osm_2'', JStr ''love'')] @ (''osm_1'', JStr ''unknown'') # []\<rparr>
            # [\<lparr>name = ''bob'', answers = [(''osm_1'', JStr ''nope'')]\<rparr>])
     = placeScores [\<lparr>place_id = ''osm_1'', place_name = ''Luigi'', cuisine = None\<rparr>,
                   \<lparr>place_id = ''osm_2'', place_name = ''Wok'', cuisine = None\<rparr>]
        ([] @ \<lparr>name = ''ann'', answers = [(''osm_2'', JStr ''love'')] @ []\<rparr>
            # [\<lparr>name = ''bob'', answers = [(''osm_1'', JStr ''nope'')]\<rparr>])
   \<and> totalTry (individualProfile
        (placeMap [\<lparr>place_id = ''osm_1'', place_name = ''Luigi'', cuisine = None\<rparr>,
                   \<lparr>place_id = ''osm_2'', place_name = ''Wok'', cuisine = None\<rparr>])
        \<lparr>name = ''ann'', answers = [(''osm_2'', JStr ''love'')] @ (''osm_1'', JStr ''unknown'') # []\<rparr>)
     = 1
   \<and> totalTry (individualProfile
        (placeMap [\<lparr>place_id = ''osm_1'', place_name = ''Luigi'', cuisine = None\<rparr>,
                   \<lparr>place_id = ''osm_2'', place_name = ''Wok'', cuisine = None\<rparr>])
        \<lparr>name = ''ann'', answers = [(''osm_2'', JStr ''love'')] @ (''toString'', JStr ''unknown'') # []\<rparr>)
     = 1"
proof -
  have h: "''osm_1'' \<notin> fst ` set ([(''osm_2'', JStr ''love'')] @ [])" by simp
  have h': "''toString'' \<notin> fst ` set ([(''osm_2'', JStr ''love'')] @ [])" by simp
  have d: "place_id ` set [\<lparr>place_id = ''osm_1'', place_name = ''Luigi'', cuisine = None\<rparr>,
                      \<lparr>place_id = ''osm_2'', place_name = ''Wok'', cuisine = None\<rparr>]
       \<inter> set objectPrototype = {}"
    by (simp add: objectPrototype_def)
  have t: "totalTry (individualProfile
        (placeMap [\<lparr>place_id = ''osm_1'', place_name = ''Luigi'', cuisine = None\<rparr>,
                   \<lparr>place_id = ''osm_2'', place_name = ''Wok'', cuisine = None\<rparr>])
        \<lparr>name = ''ann'', answers = [(''osm_2'', JStr ''love'')] @ []\<rparr>) = 0"
    by code_simp
  show ?thesis
    using h d t C7_missing_vs_unknown_amended [OF h refl refl refl d,
        where n = "''ann''"
           and xs = "[]" and ys = "[\<lparr>name = ''bob'', answers = [(''osm_1'', JStr ''nope'')]\<rparr>]"]
      C7_missing_vs_unknown_amended [OF h' refl refl refl d,
        where n = "''ann''"
           and xs = "[]" and ys = "[\<lparr>name = ''bob'', answers = [(''osm_1'', JStr ''nope'')]\<rparr>]"]
    by (simp add: objectPrototype_def)
qed

text \<open>
  Claim C8 as stated fails: a ballot whose entry for the candidate is a string other than
  the five verdicts (here \<open>maybe\<close>) is counted in no tally, not as \<open>unknown\<close>, so the
  five tallies of that candidate sum to 0 with one participant.
\<close>

theorem C8_counterexample:
  "\<not> (loveCount (placeScores [\<lparr>place_id = ''osm_1'', place_name = ''Luigi'', cuisine = None\<rparr>]
                    [\<lparr>name = ''ann'', answers = [(''osm_1'', JStr ''maybe'')]\<rparr>] ! 0)
     + likeCount (placeScores [\<lparr>place_id = ''osm_1'', place_name = ''Luigi'', cuisine = None\<rparr>]
                    [\<lparr>name = ''ann'', answers = [(''osm_1'', JStr ''maybe'')]\<rparr>] ! 0)
     + mehCount (placeScores [\<lparr>place_id = ''osm_1'', place_name = ''Luigi'', cuisine = None\<rparr>]
                    [\<lparr>name = ''ann'', answers = [(''osm_1'', JStr ''maybe'')]\<rparr>] ! 0)
     + unknownCount (placeScores [\<lparr>place_id = ''osm_1'', place_name = ''Luigi'', cuisine = None\<rparr>]
                    [\<lparr>name = ''ann'', answers = [(''osm_1'', JStr ''maybe'')]\<rparr>] ! 0)
     + nopeCount (placeScores [\<lparr>place_id = ''osm_1'', place_name = ''Luigi'', cuisine = None\<rparr>]
                    [\<lparr>name = ''ann'', answers = [(''osm_1'', JStr ''maybe'')]\<rparr>] ! 0)
     = length [\<lparr>name = ''ann'', answers = [(''osm_1'', JStr ''maybe'')]\<rparr>])"
  by (simp add: placeScores_def scored_def boost_fields scorePlace_fields votes_def vote_def tally_def)

text \<open>
  Claim C8, amended. For the n-th candidate the five tallies sum to the number of ballots
  whose verdict on it (\<open>answers[id] || 'unknown'\<close>) is one of the five verdict strings.
  So the sum is at most the participant count, and it is the participant count when
  every ballot either has no entry for the candidate, or a falsy one (\<open>null\<close>, \<open>false\<close>,
  \<open>0\<close>, the empty string), or one of the five strings. \<open>unknownCount\<close> counts the
  ballots with no entry, a falsy entry or the entry \<open>unknown\<close>. Whatever the entries are,
  ballots that parsed to objects raise no error.
\<close>

theorem C8_tallies_amended:
  assumes "n < length places"
    and "s = placeScores places pp ! n"
    and "i = place_id (places ! n)"
  shows "loveCount s + likeCount s + mehCount s + unknownCount s + nopeCount s
           = length (filter (\<lambda>p. vote p i \<in> JStr ` set voteTypes) pp)
       \<and> loveCount s + likeCount s + mehCount s + unknownCount s + nopeCount s \<le> length pp
       \<and> (list_all (\<lambda>p. case map_of (answers p) i of None \<Rightarrow> True
                          | Some v \<Rightarrow> \<not> truthy v \<or> v \<in> JStr ` set voteTypes) pp
            \<longrightarrow> loveCount s + likeCount s + mehCount s + unknownCount s + nopeCount s = length pp)
       \<and> unknownCount s
           = length (filter (\<lambda>p. case map_of (answers p) i of None \<Rightarrow> True
                                  | Some v \<Rightarrow> \<not> truthy v \<or> v = JStr ''unknown'') pp)
       \<and> computeLocalsResults places
            (map (\<lambda>p. \<lparr>name = name p, answers = JsonObject (answers p)\<rparr>) pp)
           = Inr (aggregate places pp)"
proof -
  let ?sum = "loveCount s + likeCount s + mehCount s + unknownCount s + nopeCount s"
  have s: "s = boost (cuisineFrequency (scored places pp)) (scorePlace pp (places ! n))"
    using assms(1,2) by (simp add: placeScores_nth)
  have sum: "?sum = length (filter (\<lambda>v. v \<in> JStr ` set voteTypes) (votes pp i))"
    by (simp add: s assms(3) boost_fields scorePlace_fields tally_sum)
  have 1: "?sum = length (filter (\<lambda>p. vote p i \<in> JStr ` set voteTypes) pp)"
    unfolding sum by (simp add: votes_def filter_map o_def)
  have 2: "?sum \<le> length pp" unfolding 1 by (rule length_filter_le)
  have 3: "?sum = length pp"
    if "list_all (\<lambda>p. case map_of (answers p) i of None \<Rightarrow> True
                          | Some v \<Rightarrow> \<not> truthy v \<or> v \<in> JStr ` set voteTypes) pp"
  proof -
    have "\<forall>p\<in>set pp. vote p i \<in> JStr ` set voteTypes"
      using that by (auto simp: list_all_iff vote_def voteTypes_def split: option.splits)
    then have "filter (\<lambda>p. vote p i \<in> JStr ` set voteTypes) pp = pp" by simp
    then show ?thesis unfolding 1 by simp
  qed
  have "unknownCount s = length (filter (\<lambda>v. v = JStr ''unknown'') (votes pp i))"
    by (simp add: s assms(3) boost_fields scorePlace_fields tally_def)
  also have "\<dots> = length (filter (\<lambda>p. vote p i = JStr ''unknown'') pp)"
    by (simp add: votes_def filter_map o_def)
  also have "(\<lambda>p. vote p i = JStr ''unknown'')
           = (\<lambda>p. case map_of (answers p) i of None \<Rightarrow> True
                                  | Some v \<Rightarrow> \<not> truthy v \<or> v = JStr ''unknown'')"
    by (auto simp: vote_def fun_eq_iff split: option.splits)
  finally have 4: "unknownCount s
           = length (filter (\<lambda>p. case map_of (answers p) i of None \<Rightarrow> True
                                  | Some v \<Rightarrow> \<not> truthy v \<or> v = JStr ''unknown'') pp)" .
  show ?thesis using 1 2 3 4 computeLocalsResults_objects by blast
qed

text \<open>
  Witness for C8: of three ballots on two places, the first place has one malformed entry
  (sum 2, one \<open>unknown\<close> from the missing entry) and the second has a \<open>null\<close> and a missing
  entry (sum 3, the participant count).
\<close>

theorem C8_tallies_amended_witness:
  "(let places = [\<lparr>place_id = ''osm_1'', place_name = ''Luigi'', cuisine = None\<rparr>,
                  \<lparr>place_id = ''osm_2'', place_name = ''Wok'', cuisine = None\<rparr>];
        pp = [\<lparr>name = ''ann'', answers = [(''osm_1'', JStr ''maybe''), (''osm_2'', JStr ''love'')]\<rparr>,
              \<lparr>name = ''bob'', answers = [(''osm_1'', JStr ''nope''), (''osm_2'', JNull)]\<rparr>,
              \<lparr>name = ''cy'', answers = []\<rparr>];
        s = placeScores places pp ! 0; t = placeScores places pp ! 1
    in loveCount s + likeCount s + mehCount s + unknownCount s + nopeCount s = 2
     \<and> unknownCount s = 1
     \<and> loveCount t + likeCount t + mehCount t + unknownCount t + nopeCount t = length pp
     \<and> unknownCount t = 2)"
  using C8_tallies_amended
    [of 0 "[\<lparr>place_id = ''osm_1'', place_name = ''Luigi'', cuisine = None\<rparr>,
            \<lparr>place_id = ''osm_2'', place_name = ''Wok'', cuisine = None\<rparr>]" _
        "[\<lparr>name = ''ann'', answers = [(''osm_1'', JStr ''maybe''), (''osm_2'', JStr ''love'')]\<rparr>,
          \<lparr>name = ''bob'', answers = [(''osm_1'', JStr ''nope''), (''osm_2'', JNull)]\<rparr>,
          \<lparr>name = ''cy'', answers = []\<rparr>]", OF _ refl refl]
    C8_tallies_amended
    [of 1 "[\<lparr>place_id = ''osm_1'', place_name = ''Luigi'', cuisine = None\<rparr>,
            \<lparr>place_id = ''osm_2'', place_name = ''Wok'', cuisine = None\<rparr>]" _
        "[\<lparr>name = ''ann'', answers = [(''osm_1'', JStr ''maybe''), (''osm_2'', JStr ''love'')]\<rparr>,
          \<lparr>name = ''bob'', answers = [(''osm_1'', JStr ''nope''), (''osm_2'', JNull)]\<rparr>,
          \<lparr>name = ''cy'', answers = []\<rparr>]", OF _ refl refl]
  by (simp add: vote_def voteTypes_def Let_def)

text \<open>
  Claim C9. Let one participant's verdict on the candidate with id \<open>i\<close> change to
  \<open>love\<close> from something else, every other verdict of every participant staying as it
  is. Then the \<open>loveCount\<close> of that candidate grows by one, the tallies of the candidates
  with another id are unchanged, and neither the \<open>score\<close> nor the \<open>boostedScore\<close> of that
  candidate decreases.
\<close>

theorem C9_love_monotone:
  assumes "length pp' = length pp" and "j < length pp"
    and "\<forall>k<length pp. \<forall>c. (k, c) \<noteq> (j, i) \<longrightarrow> vote (pp' ! k) c = vote (pp ! k) c"
    and "vote (pp ! j) i \<noteq> JStr ''love''" and "vote (pp' ! j) i = JStr ''love''"
    and "n < length places" and "place_id (places ! n) = i"
  shows "loveCount (placeScores places pp' ! n) = loveCount (placeScores places pp ! n) + 1
       \<and> score (placeScores places pp ! n) \<le> score (placeScores places pp' ! n)
       \<and> boostedScore (placeScores places pp ! n) \<le> boostedScore (placeScores places pp' ! n)
       \<and> (\<forall>m<length places. place_id (places ! m) \<noteq> i \<longrightarrow>
             loveCount (placeScores places pp' ! m) = loveCount (placeScores places pp ! m)
           \<and> likeCount (placeScores places pp' ! m) = likeCount (placeScores places pp ! m)
           \<and> mehCount (placeScores places pp' ! m) = mehCount (placeScores places pp ! m)
           \<and> unknownCount (placeScores places pp' ! m) = unknownCount (placeScores places pp ! m)
           \<and> nopeCount (placeScores places pp' ! m) = nopeCount (placeScores places pp ! m))"
proof -
  let ?x = "places ! n"
  let ?tb = "cuisineFrequency (scored places pp)"
  let ?tb' = "cuisineFrequency (scored places pp')"
  note h = assms(1-5)
  have lo: "loveCount (scorePlace pp' ?x) = loveCount (scorePlace pp ?x) + 1"
    and sc: "score (scorePlace pp ?x) \<le> score (scorePlace pp' ?x)"
    using scorePlace_changed [OF h assms(7)] by simp_all
  have bo: "bonus ?tb (scorePlace pp ?x) \<le> bonus ?tb' (scorePlace pp' ?x)"
  proof -
    have "bonus ?tb' (scorePlace pp' ?x) = bonus ?tb' (scorePlace pp ?x)"
      by (simp add: bonus_def tags_scorePlace)
    moreover have "bonus ?tb (scorePlace pp ?x) \<le> bonus ?tb' (scorePlace pp ?x)"
      by (rule bonus_mono) (rule table_mono [OF h])
    ultimately show ?thesis by simp
  qed
  have 1: "loveCount (placeScores places pp' ! n) = loveCount (placeScores places pp ! n) + 1"
    using lo assms(6) by (simp add: placeScores_nth boost_fields)
  have 2: "score (placeScores places pp ! n) \<le> score (placeScores places pp' ! n)"
    using sc assms(6) by (simp add: placeScores_nth boost_fields)
  have 3: "boostedScore (placeScores places pp ! n) \<le> boostedScore (placeScores places pp' ! n)"
    using sc bo assms(6) by (simp add: placeScores_nth boost_fields tags_scorePlace)
  have 4: "loveCount (placeScores places pp' ! m) = loveCount (placeScores places pp ! m)
           \<and> likeCount (placeScores places pp' ! m) = likeCount (placeScores places pp ! m)
           \<and> mehCount (placeScores places pp' ! m) = mehCount (placeScores places pp ! m)
           \<and> unknownCount (placeScores places pp' ! m) = unknownCount (placeScores places pp ! m)
           \<and> nopeCount (placeScores places pp' ! m) = nopeCount (placeScores places pp ! m)"
    if m: "m < length places" and ne: "place_id (places ! m) \<noteq> i" for m
    using scorePlace_other [OF assms(1,3) ne] m by (simp add: placeScores_nth boost_fields)
  show ?thesis using 1 2 3 4 by blast
qed

text \<open>
  Witness for C9: two places tagged \<open>italian\<close>; the first ballot changes its verdict on
  \<open>osm_1\<close> from \<open>nope\<close> to \<open>love\<close>. The score of \<open>osm_1\<close> goes from \<open>-3\<close> to 4 and its
  boosted score from \<open>-3 + 1\<close> to \<open>4 + 2\<close>.
\<close>

theorem C9_love_monotone_witness:
  "map loveCount (placeScores
     [\<lparr>place_id = ''osm_1'', place_name = ''Luigi'', cuisine = Some ''italian''\<rparr>,
      \<lparr>place_id = ''osm_2'', place_name = ''Gino'', cuisine = Some ''italian''\<rparr>]
     [\<lparr>name = ''ann'', answers = [(''osm_1'', JStr ''nope''), (''osm_2'', JStr ''like'')]\<rparr>,
      \<lparr>name = ''bob'', answers = []\<rparr>]) = [0, 0]
   \<and> map loveCount (placeScores
     [\<lparr>place_id = ''osm_1'', place_name = ''Luigi'', cuisine = Some ''italian''\<rparr>,
      \<lparr>place_id = ''osm_2'', place_name = ''Gino'', cuisine = Some ''italian''\<rparr>]
     [\<lparr>name = ''ann'', answers = [(''osm_1'', JStr ''love''), (''osm_2'', JStr ''like'')]\<rparr>,
      \<lparr>name = ''bob'', answers = []\<rparr>]) = [1, 0]
   \<and> score (placeScores
     [\<lparr>place_id = ''osm_1'', place_name = ''Luigi'', cuisine = Some ''italian''\<rparr>,
      \<lparr>place_id = ''osm_2'', place_name = ''Gino'', cuisine = Some ''italian''\<rparr>]
     [\<lparr>name = ''ann'', answers = [(''osm_1'', JStr ''nope''), (''osm_2'', JStr ''like'')]\<rparr>,
      \<lparr>name = ''bob'', answers = []\<rparr>] ! 0)
     \<le> score (placeScores
     [\<lparr>place_id = ''osm_1'', place_name = ''Luigi'', cuisine = Some ''italian''\<rparr>,
      \<lparr>place_id = ''osm_2'', place_name = ''Gino'', cuisine = Some ''italian''\<rparr>]
     [\<lparr>name = ''ann'', answers = [(''osm_1'', JStr ''love''), (''osm_2'', JStr ''like'')]\<rparr>,
      \<lparr>name = ''bob'', answers = []\<rparr>] ! 0)
   \<and> boostedScore (placeScores
     [\<lparr>place_id = ''osm_1'', place_name = ''Luigi'', cuisine = Some ''italian''\<rparr>,
      \<lparr>place_id = ''osm_2'', place_name = ''Gino'', cuisine = Some ''italian''\<rparr>]
     [\<lparr>name = ''ann'', answers = [(''osm_1'', JStr ''nope''), (''osm_2'', JStr ''like'')]\<rparr>,
      \<lparr>name = ''bob'', answers = []\<rparr>] ! 0)
     \<le> boostedScore (placeScores
     [\<lparr>place_id = ''osm_1'', place_name = ''Luigi'', cuisine = Some ''italian''\<rparr>,
      \<lparr>place_id = ''osm_2'', place_name = ''Gino'', cuisine = Some ''italian''\<rparr>]
     [\<lparr>name = ''ann'', answers = [(''osm_1'', JStr ''love''), (''osm_2'', JStr ''like'')]\<rparr>,
      \<lparr>name = ''bob'', answers = []\<rparr>] ! 0)
   \<and> map boostedScore (placeScores
     [\<lparr>place_id = ''osm_1'', place_name = ''Luigi'', cuisine = Some ''italian''\<rparr>,
      \<lparr>place_id = ''osm_2'', place_name = ''Gino'', cuisine = Some ''italian''\<rparr>]
     [\<lparr>name = ''ann'', answers = [(''osm_1'', JStr ''nope''), (''osm_2'', JStr ''like'')]\<rparr>,
      \<lparr>name = ''bob'', answers = []\<rparr>]) = [- 2, 3]
   \<and> map boostedScore (placeScores
     [\<lparr>place_id = ''osm_1'', place_name = ''Luigi'', cuisine = Some ''italian''\<rparr>,
      \<lparr>place_id = ''osm_2'', place_name = ''Gino'', cuisine = Some ''italian''\<rparr>]
     [\<lparr>name = ''ann'', answers = [(''osm_1'', JStr ''love''), (''osm_2'', JStr ''like'')]\<rparr>,
      \<lparr>name = ''bob'', answers = []\<rparr>]) = [6, 4]"
proof -
  let ?places = "[\<lparr>place_id = ''osm_1'', place_name = ''Luigi'', cuisine = Some ''italian''\<rparr>,
      \<lparr>place_id = ''osm_2'', place_name = ''Gino'', cuisine = Some ''italian''\<rparr>]"
  let ?pp = "[\<lparr>name = ''ann'', answers = [(''osm_1'', JStr ''nope''), (''osm_2'', JStr ''like'')]\<rparr>,
      \<lparr>name = ''bob'', answers = []\<rparr>]"
  let ?pp' = "[\<lparr>name = ''ann'', answers = [(''osm_1'', JStr ''love''), (''osm_2'', JStr ''like'')]\<rparr>,
      \<lparr>name = ''bob'', answers = []\<rparr>]"
  have h1: "length ?pp' = length ?pp" by simp
  have h2: "0 < length ?pp" by simp
  have h3: "\<forall>k<length ?pp. \<forall>c. (k, c) \<noteq> (0, ''osm_1'') \<longrightarrow> vote (?pp' ! k) c = vote (?pp ! k) c"
    by (simp add: vote_def All_less_Suc)
  have h4: "vote (?pp ! 0) ''osm_1'' \<noteq> JStr ''love''" by (simp add: vote_def)
  have h5: "vote (?pp' ! 0) ''osm_1'' = JStr ''love''" by (simp add: vote_def)
  have h6: "0 < length ?places" by simp
  have h7: "place_id (?places ! 0) = ''osm_1''" by simp
  have a: "map loveCount (placeScores ?places ?pp) = [0, 0]" by code_simp
  have b: "map loveCount (placeScores ?places ?pp') = [1, 0]" by code_simp
  have c: "map boostedScore (placeScores ?places ?pp) = [- 2, 3]" by code_simp
  have d: "map boostedScore (placeScores ?places ?pp') = [6, 4]" by code_simp
  show ?thesis
    using a b c d C9_love_monotone [OF h1 h2 h3 h4 h5 h6 h7] by blast
qed

text \<open>
  Claim C10. The lists \<open>shared_favorites\<close> and \<open>places_to_try\<close> of the result are the
  first ten entries of the two tiers, so each has at most ten entries: as many as
  candidates qualify, up to ten. The entries returned and the entries cut off are
  together exactly the qualifying candidates, and no entry cut off has a higher
  \<open>boostedScore\<close> than an entry returned.
\<close>

theorem C10_truncation:
  assumes "r = aggregate places pp"
    and "ps = placeScores places pp"
  shows "length (shared_favorites r) \<le> 10 \<and> length (places_to_try r) \<le> 10
       \<and> shared_favorites r = take 10 (sharedFavorites ps)
       \<and> places_to_try r = take 10 (placesToTry ps)
       \<and> length (shared_favorites r)
           = min 10 (length (filter (\<lambda>p. allPositive p \<and> loveCount p > 0) ps))
       \<and> length (places_to_try r)
           = min 10 (length (filter (\<lambda>p. noneNope p \<and> \<not> allPositive p) ps))
       \<and> mset (shared_favorites r) + mset (drop 10 (sharedFavorites ps))
           = filter_mset (\<lambda>p. allPositive p \<and> loveCount p > 0) (mset ps)
       \<and> mset (places_to_try r) + mset (drop 10 (placesToTry ps))
           = filter_mset (\<lambda>p. noneNope p \<and> \<not> allPositive p) (mset ps)
       \<and> (\<forall>a \<in> set (shared_favorites r). \<forall>b \<in> set (drop 10 (sharedFavorites ps)).
             boostedScore b \<le> boostedScore a)
       \<and> (\<forall>a \<in> set (places_to_try r). \<forall>b \<in> set (drop 10 (placesToTry ps)).
             boostedScore b \<le> boostedScore a)"
proof -
  have r: "shared_favorites r = take 10 (sharedFavorites ps)"
    "places_to_try r = take 10 (placesToTry ps)"
    by (simp_all add: assms aggregate_fields)
  have len: "length (shared_favorites r) \<le> 10" "length (places_to_try r) \<le> 10"
    by (simp_all add: r)
  have n1: "length (shared_favorites r)
           = min 10 (length (filter (\<lambda>p. allPositive p \<and> loveCount p > 0) ps))"
    by (simp add: r sharedFavorites_def length_sort_by min.commute)
  have n2: "length (places_to_try r)
           = min 10 (length (filter (\<lambda>p. noneNope p \<and> \<not> allPositive p) ps))"
    by (simp add: r placesToTry_def length_sort_by min.commute)
  have "mset (take 10 (sharedFavorites ps)) + mset (drop 10 (sharedFavorites ps))
          = mset (sharedFavorites ps)"
    by (simp flip: mset_append)
  then have m1: "mset (shared_favorites r) + mset (drop 10 (sharedFavorites ps))
           = filter_mset (\<lambda>p. allPositive p \<and> loveCount p > 0) (mset ps)"
    by (simp add: r sharedFavorites_def mset_sort_by)
  have "mset (take 10 (placesToTry ps)) + mset (drop 10 (placesToTry ps))
          = mset (placesToTry ps)"
    by (simp flip: mset_append)
  then have m2: "mset (places_to_try r) + mset (drop 10 (placesToTry ps))
           = filter_mset (\<lambda>p. noneNope p \<and> \<not> allPositive p) (mset ps)"
    by (simp add: r placesToTry_def mset_sort_by)
  have s1: "sorted_wrt (\<lambda>a b. boostedScore a \<ge> boostedScore b) (sharedFavorites ps)"
    by (simp add: sharedFavorites_def sorted_byBoostedDesc)
  have s2: "sorted_wrt (\<lambda>a b. boostedScore a \<ge> boostedScore b) (placesToTry ps)"
    by (simp add: placesToTry_def sorted_byBoostedDesc)
  have o1: "\<forall>a \<in> set (shared_favorites r). \<forall>b \<in> set (drop 10 (sharedFavorites ps)).
             boostedScore b \<le> boostedScore a"
    unfolding r using sorted_take_drop [OF s1] by blast
  have o2: "\<forall>a \<in> set (places_to_try r). \<forall>b \<in> set (drop 10 (placesToTry ps)).
             boostedScore b \<le> boostedScore a"
    unfolding r using sorted_take_drop [OF s2] by blast
  show ?thesis using r len n1 n2 m1 m2 o1 o2 by simp
qed

text \<open>
  Witness for C10: eleven places, all loved by the one participant, the last two with
  the cuisine \<open>pizza\<close> (boosted score \<open>4 + 2\<close>, the others 4). All eleven qualify as
  shared favorites; ten are returned, the two boosted ones first, and \<open>osm_8\<close>, the last
  of the others in the candidate list, is cut off.
\<close>

theorem C10_truncation_witness:
  "length (sharedFavorites (placeScores
       (map (\<lambda>n. \<lparr>place_id = ''osm_'' @ show_nat n, place_name = [],
                     cuisine = (if n \<ge> 9 then Some ''pizza'' else None)\<rparr>) [0..<11])
       [\<lparr>name = ''ann'', answers = map (\<lambda>n. (''osm_'' @ show_nat n, JStr ''love'')) [0..<11]\<rparr>])) = 11
   \<and> length (shared_favorites (aggregate
       (map (\<lambda>n. \<lparr>place_id = ''osm_'' @ show_nat n, place_name = [],
                     cuisine = (if n \<ge> 9 then Some ''pizza'' else None)\<rparr>) [0..<11])
       [\<lparr>name = ''ann'', answers = map (\<lambda>n. (''osm_'' @ show_nat n, JStr ''love'')) [0..<11]\<rparr>])) = 10
   \<and> map place_id (shared_favorites (aggregate
       (map (\<lambda>n. \<lparr>place_id = ''osm_'' @ show_nat n, place_name = [],
                     cuisine = (if n \<ge> 9 then Some ''pizza'' else None)\<rparr>) [0..<11])
       [\<lparr>name = ''ann'', answers = map (\<lambda>n. (''osm_'' @ show_nat n, JStr ''love'')) [0..<11]\<rparr>]))
       = [''osm_9'', ''osm_10'', ''osm_0'', ''osm_1'', ''osm_2'', ''osm_3'', ''osm_4'', ''osm_5'',
          ''osm_6'', ''osm_7'']
   \<and> map place_id (drop 10 (sharedFavorites (placeScores
       (map (\<lambda>n. \<lparr>place_id = ''osm_'' @ show_nat n, place_name = [],
                     cuisine = (if n \<ge> 9 then Some ''pizza'' else None)\<rparr>) [0..<11])
       [\<lparr>name = ''ann'', answers = map (\<lambda>n. (''osm_'' @ show_nat n, JStr ''love'')) [0..<11]\<rparr>]))) = [''osm_8'']
   \<and> list_all (\<lambda>a. list_all (\<lambda>b. boostedScore b \<le> boostedScore a)
         (drop 10 (sharedFavorites (placeScores
       (map (\<lambda>n. \<lparr>place_id = ''osm_'' @ show_nat n, place_name = [],
                     cuisine = (if n \<ge> 9 then Some ''pizza'' else None)\<rparr>) [0..<11])
       [\<lparr>name = ''ann'', answers = map (\<lambda>n. (''osm_'' @ show_nat n, JStr ''love'')) [0..<11]\<rparr>]))))
       (shared_favorites (aggregate
       (map (\<lambda>n. \<lparr>place_id = ''osm_'' @ show_nat n, place_name = [],
                     cuisine = (if n \<ge> 9 then Some ''pizza'' else None)\<rparr>) [0..<11])
       [\<lparr>name = ''ann'', answers = map (\<lambda>n. (''osm_'' @ show_nat n, JStr ''love'')) [0..<11]\<rparr>]))"
proof -
  have a: "length (sharedFavorites (placeScores
       (map (\<lambda>n. \<lparr>place_id = ''osm_'' @ show_nat n, place_name = [],
                     cuisine = (if n \<ge> 9 then Some ''pizza'' else None)\<rparr>) [0..<11])
       [\<lparr>name = ''ann'', answers = map (\<lambda>n. (''osm_'' @ show_nat n, JStr ''love'')) [0..<11]\<rparr>])) = 11"
    by code_simp
  have b: "map place_id (shared_favorites (aggregate
       (map (\<lambda>n. \<lparr>place_id = ''osm_'' @ show_nat n, place_name = [],
                     cuisine = (if n \<ge> 9 then Some ''pizza'' else None)\<rparr>) [0..<11])
       [\<lparr>name = ''ann'', answers = map (\<lambda>n. (''osm_'' @ show_nat n, JStr ''love'')) [0..<11]\<rparr>]))
       = [''osm_9'', ''osm_10'', ''osm_0'', ''osm_1'', ''osm_2'', ''osm_3'', ''osm_4'', ''osm_5'',
          ''osm_6'', ''osm_7'']"
    by code_simp
  have c: "map place_id (drop 10 (sharedFavorites (placeScores
       (map (\<lambda>n. \<lparr>place_id = ''osm_'' @ show_nat n, place_name = [],
                     cuisine = (if n \<ge> 9 then Some ''pizza'' else None)\<rparr>) [0..<11])
       [\<lparr>name = ''ann'', answers = map (\<lambda>n. (''osm_'' @ show_nat n, JStr ''love'')) [0..<11]\<rparr>]))) = [''osm_8'']"
    by code_simp
  have d: "length (shared_favorites (aggregate
       (map (\<lambda>n. \<lparr>place_id = ''osm_'' @ show_nat n, place_name = [],
                     cuisine = (if n \<ge> 9 then Some ''pizza'' else None)\<rparr>) [0..<11])
       [\<lparr>name = ''ann'', answers = map (\<lambda>n. (''osm_'' @ show_nat n, JStr ''love'')) [0..<11]\<rparr>])) = 10"
    using arg_cong [OF b, of length] by simp
  show ?thesis
    using a b c d C10_truncation [OF refl refl, of
       "map (\<lambda>n. \<lparr>place_id = ''osm_'' @ show_nat n, place_name = [],
                     cuisine = (if n \<ge> 9 then Some ''pizza'' else None)\<rparr>) [0..<11]"
       "[\<lparr>name = ''ann'', answers = map (\<lambda>n. (''osm_'' @ show_nat n, JStr ''love'')) [0..<11]\<rparr>]"]
    by (simp add: list_all_iff)
qed

end
